theory Spec2Isabelle
  imports Complex_Main "HOL-Library.Sublist"
begin

section \<open>Python values used by the sandbox agent\<close>

text \<open>
  Python strings are modelled as \<open>string\<close> (one \<open>char\<close> per character), Python's
  unbounded integers as \<open>int\<close>. A value stored in a result dictionary is a string, an
  integer or a boolean; a result dictionary is the list of its items in insertion order.
\<close>

datatype pyval = VStr string | VInt int | VBool bool

type_synonym pydict = "(string \<times> pyval) list"

section \<open>Exceptions\<close>

text \<open>
  The exception classes the sandbox code raises or handles, each with the text \<open>str(e)\<close>
  gives. \<open>CancelledError\<close> stands for the exceptions that are not subclasses of
  \<open>Exception\<close>: no \<open>except Exception\<close> clause catches it. \<open>TimeoutError\<close> is the builtin,
  which \<open>asyncio.wait_for\<close> raises when its bound elapses (Python 3.11 and later, where
  \<open>asyncio.TimeoutError\<close> is the builtin class). \<open>NotFound\<close> and \<open>ContainerError\<close> are
  those of \<open>docker.errors\<close>; \<open>OtherException\<close> is any other subclass of \<open>Exception\<close>.
\<close>

datatype pyexn =
    RuntimeError string
  | ValueError string
  | OverflowError string
  | FileNotFoundError string
  | TimeoutError string
  | IndexError string
  | ImportError string
  | NotFound string
  | ContainerError int string
  | OtherException string
  | CancelledError

fun exn_str :: "pyexn \<Rightarrow> string" where
  "exn_str (RuntimeError m) = m"
| "exn_str (ValueError m) = m"
| "exn_str (OverflowError m) = m"
| "exn_str (FileNotFoundError m) = m"
| "exn_str (TimeoutError m) = m"
| "exn_str (IndexError m) = m"
| "exn_str (ImportError m) = m"
| "exn_str (NotFound m) = m"
| "exn_str (ContainerError status m) = m"
| "exn_str (OtherException m) = m"
| "exn_str CancelledError = []"

fun is_Exception :: "pyexn \<Rightarrow> bool" where
  "is_Exception CancelledError = False"
| "is_Exception e = True"


section \<open>Numbers\<close>

text \<open>
  A float is a finite value, which is a rational number, or one of \<open>inf\<close>, \<open>-inf\<close> and
  \<open>nan\<close>. A timeout is annotated \<open>float\<close> but receives integers too (the default is the
  integer 120), and the two print differently, so a number is an integer or a float.
\<close>

datatype pyfloat = Finite rat | PosInf | NegInf | NaN

datatype pynum = NInt int | NFloat pyfloat

text \<open>
  Float arithmetic rounds to the nearest double, and \<open>repr\<close> chooses the digits a float
  prints with. Neither is modelled: the functions below take them as the parameter
  \<open>py\<close>, with \<open>float_add a b\<close> for \<open>a + b\<close> and \<open>float_mul a b\<close> for \<open>a * b\<close> on floats.
\<close>

record py_floats =
  float_repr :: "pyfloat \<Rightarrow> string"
  float_add :: "pyfloat \<Rightarrow> pyfloat \<Rightarrow> pyfloat"
  float_mul :: "pyfloat \<Rightarrow> pyfloat \<Rightarrow> pyfloat"

text \<open>
  \<open>int(t)\<close>: the identity on integers, truncation toward zero on finite floats; it raises
  \<open>OverflowError\<close> on an infinity and \<open>ValueError\<close> on \<open>nan\<close>.
\<close>

fun int_of_float :: "pyfloat \<Rightarrow> pyexn + int" where
  "int_of_float (Finite q) = Inr (if 0 \<le> q then \<lfloor>q\<rfloor> else \<lceil>q\<rceil>)"
| "int_of_float PosInf = Inl (OverflowError ''cannot convert float infinity to integer'')"
| "int_of_float NegInf = Inl (OverflowError ''cannot convert float infinity to integer'')"
| "int_of_float NaN = Inl (ValueError ''cannot convert float NaN to integer'')"

fun py_int :: "pynum \<Rightarrow> pyexn + int" where
  "py_int (NInt n) = Inr n"
| "py_int (NFloat f) = int_of_float f"

text \<open>
  \<open>t + k\<close> for an integer literal \<open>k\<close>: integer addition when \<open>t\<close> is an integer; when \<open>t\<close>
  is a float, \<open>k\<close> becomes the float of the same value (exact for the literal 5 used
  here) and the sum is the float sum.
\<close>

fun py_add_int :: "py_floats \<Rightarrow> pynum \<Rightarrow> int \<Rightarrow> pynum" where
  "py_add_int py (NInt n) k = NInt (n + k)"
| "py_add_int py (NFloat f) k = NFloat (float_add py f (Finite (of_int k)))"

text \<open>Decimal rendering of an integer, as \<open>str(n)\<close> and an f-string field produce it.\<close>

definition digit_char :: "nat \<Rightarrow> char" where
  "digit_char d = ''0123456789'' ! d"

fun str_nat :: "nat \<Rightarrow> string" where
  "str_nat n = (if n < 10 then [digit_char n] else str_nat (n div 10) @ [digit_char (n mod 10)])"

declare str_nat.simps [simp del]

definition str_int :: "int \<Rightarrow> string" where
  "str_int i = (if i < 0 then CHR ''-'' # str_nat (nat (- i)) else str_nat (nat i))"

text \<open>Rendering of a timeout in an f-string.\<close>

fun str_num :: "py_floats \<Rightarrow> pynum \<Rightarrow> string" where
  "str_num py (NInt n) = str_int n"
| "str_num py (NFloat f) = float_repr py f"

text \<open>
  The slice \<open>xs[:k]\<close>: the first \<open>k\<close> elements, and for a negative \<open>k\<close> all but the
  last \<open>-k\<close>.
\<close>

definition py_slice_to :: "'a list \<Rightarrow> int \<Rightarrow> 'a list" where
  "py_slice_to xs k =
     (if 0 \<le> k then take (nat k) xs else take (nat (int (length xs) + k)) xs)"

text \<open>\<open>s.split(sep)\<close> for a one-character separator, and \<open>sep.join(parts)\<close>.\<close>

fun split_on :: "char \<Rightarrow> string \<Rightarrow> string list" where
  "split_on sep [] = [[]]"
| "split_on sep (c # cs) =
     (if c = sep then [] # split_on sep cs
      else (case split_on sep cs of
              [] \<Rightarrow> [[c]]
            | w # ws \<Rightarrow> (c # w) # ws))"

fun join_with :: "string \<Rightarrow> string list \<Rightarrow> string" where
  "join_with sep [] = []"
| "join_with sep [x] = x"
| "join_with sep (x # y # ys) = x @ sep @ join_with sep (y # ys)"

section \<open>tools/common.py: output truncation\<close>

definition DEFAULT_MAX_OUTPUT_CHARS :: int where
  "DEFAULT_MAX_OUTPUT_CHARS = 16000"

text \<open>The marker \<open>f"\n... (truncated, {len(text)} total chars)"\<close> for a text of \<open>n\<close> characters.\<close>

definition truncation_marker :: "nat \<Rightarrow> string" where
  "truncation_marker n =
     CHR 0x0A # ''... (truncated, '' @ str_int (int n) @ '' total chars)''"

definition truncate_output :: "string \<Rightarrow> int \<Rightarrow> string" where
  "truncate_output text max_chars =
     (if max_chars < int (length text)
      then py_slice_to text max_chars @ truncation_marker (length text)
      else text)"

section \<open>sandbox/base.py: the command result\<close>

record CommandResult =
  exit_code :: int
  stdout :: string
  stderr :: string

definition success :: "CommandResult \<Rightarrow> bool" where
  "success r = (exit_code r = 0)"

definition to_dict :: "CommandResult \<Rightarrow> pydict" where
  "to_dict r =
     [(''exit_code'', VInt (exit_code r)),
      (''stdout'', VStr (stdout r)),
      (''stderr'', VStr (stderr r)),
      (''success'', VBool (success r))]"

section \<open>Library functions the backends call\<close>

text \<open>
  \<open>shlex.quote\<close>: the empty string becomes two quotes, a string of safe characters
  (\<open>[A-Za-z0-9_@%+=:,./-]\<close>) stays as it is, and any other string is put in single
  quotes, each single quote of it written \<open>'"'"'\<close>.
\<close>

definition shlex_safe_char :: "char \<Rightarrow> bool" where
  "shlex_safe_char c \<longleftrightarrow>
     c \<in> set (''abcdefghijklmnopqrstuvwxyzABCDEFGHIJKLMNOPQRSTUVWXYZ'' @
              ''0123456789_@%+=:,./-'')"

definition shlex_quote :: "string \<Rightarrow> string" where
  "shlex_quote s =
     (if s = [] then [CHR 0x27, CHR 0x27]
      else if list_all shlex_safe_char s then s
      else CHR 0x27 #
           concat (map (\<lambda>c. if c = CHR 0x27
                               then [CHR 0x27, CHR 0x22, CHR 0x27, CHR 0x22, CHR 0x27]
                               else [c]) s) @
           [CHR 0x27])"

text \<open>
  \<open>str.strip()\<close> removes the white space at both ends; among the first 256 code points
  these are the characters below.
\<close>

definition py_isspace :: "char \<Rightarrow> bool" where
  "py_isspace c \<longleftrightarrow>
     c \<in> set [CHR 0x09, CHR 0x0A, CHR 0x0B, CHR 0x0C, CHR 0x0D, CHR 0x1C, CHR 0x1D,
              CHR 0x1E, CHR 0x1F, CHR 0x20, CHR 0x85, CHR 0xA0]"

definition py_strip :: "string \<Rightarrow> string" where
  "py_strip s = dropWhile py_isspace (rev (dropWhile py_isspace (rev s)))"

text \<open>\<open>str.lower()\<close> on the ASCII letters; other characters are left as they are.\<close>

definition py_lower_char :: "char \<Rightarrow> char" where
  "py_lower_char c =
     (case map_of (zip ''ABCDEFGHIJKLMNOPQRSTUVWXYZ'' ''abcdefghijklmnopqrstuvwxyz'') c of
        None \<Rightarrow> c
      | Some l \<Rightarrow> l)"

definition py_lower :: "string \<Rightarrow> string" where
  "py_lower s = map py_lower_char s"

text \<open>\<open>needle in haystack\<close> on strings.\<close>

definition str_contains :: "string \<Rightarrow> string \<Rightarrow> bool" where
  "str_contains needle haystack \<longleftrightarrow> sublist needle haystack"

text \<open>\<open>b.decode("utf-8", errors="replace") if b else ""\<close>, on an output already decoded.\<close>

fun decode_or_empty :: "string option \<Rightarrow> string" where
  "decode_or_empty None = []"
| "decode_or_empty (Some s) = s"

section \<open>sandbox/docker\_sandbox.py: the local container backend\<close>

type_synonym env = "string \<rightharpoonup> string"

text \<open>The workspace constants of sandbox/base.py.\<close>

definition WORKSPACE_ROOT :: string where
  "WORKSPACE_ROOT = ''/workspace''"

definition WORKSPACE_INIT_COMMAND :: string where
  "WORKSPACE_INIT_COMMAND =
     ''mkdir -p '' @ WORKSPACE_ROOT @ ''/input '' @ WORKSPACE_ROOT @ ''/output '' @
     WORKSPACE_ROOT @ ''/temp '' @ WORKSPACE_ROOT @ ''/downloads''"

text \<open>
  The call \<open>asyncio.wait_for(run_in_executor(container.exec_run(...)), timeout=...)\<close>: what
  is asked of the engine, and how the await ends. An exec that returns carries the exit
  code and the two demultiplexed streams (\<open>None\<close> for an absent stream, else its decoded
  text); anything else is an exception, \<open>TimeoutError\<close> when the caller-side bound elapses.
\<close>

record exec_request =
  cmd :: string
  workdir :: string
  exec_environment :: "env option"
  demux :: bool
  wait_for_timeout :: pynum

datatype exec_outcome =
    Exec_returned int "string option" "string option"
  | Exec_raised pyexn



text \<open>
  The container handle: how the engine answers each call made through it.
  \<open>get_archive\<close> yields the members of the archive, each the text of a regular file or
  \<open>None\<close> for a member \<open>extractfile\<close> cannot open. \<open>put_archive\<close> is given the target
  directory and the single member's name and data. \<open>remove\<close> is \<open>remove(force=True)\<close>.
\<close>

record docker_container =
  start :: "pyexn option"
  exec_run :: "exec_request \<Rightarrow> exec_outcome"
  get_archive :: "string \<Rightarrow> pyexn + string option list"
  put_archive :: "string \<Rightarrow> string \<Rightarrow> string \<Rightarrow> pyexn option"
  remove :: "pyexn option"

datatype docker_client = DockerClient

text \<open>The dictionary \<open>container_config\<close> that \<open>start\<close> hands to \<open>containers.create\<close>.\<close>

record container_config =
  cc_image :: string
  cc_name :: string
  cc_detach :: bool
  cc_tty :: bool
  cc_stdin_open :: bool
  cc_working_dir :: string
  cc_mem_limit :: string
  cc_nano_cpus :: int
  cc_network_mode :: string
  cc_command :: string
  cc_auto_remove :: bool
  cc_environment :: env
  cc_volumes :: "(string \<rightharpoonup> (string \<rightharpoonup> string)) option"

text \<open>
  The engine as \<open>start\<close> meets it: \<open>docker.from_env()\<close>, \<open>images.get\<close> (which finds the
  image, raises \<open>ImageNotFound\<close>, or raises something else), \<open>images.pull\<close> and
  \<open>containers.create\<close>.
\<close>

datatype image_lookup = Image_found | Image_not_found | Image_lookup_raised pyexn

record docker_engine =
  from_env :: "pyexn + docker_client"
  images_get :: "string \<Rightarrow> image_lookup"
  images_pull :: "string \<Rightarrow> pyexn option"
  containers_create :: "container_config \<Rightarrow> pyexn + docker_container"

datatype docker_call =
    Call_from_env
  | Call_images_get string
  | Call_images_pull string
  | Call_containers_create container_config
  | Call_container_start
  | Call_exec_run exec_request
  | Call_get_archive string
  | Call_put_archive string string string
  | Call_remove
  | Call_client_close

text \<open>
  The sandbox object: its configuration, and the two handles \<open>start\<close> sets. The CPU
  limit is annotated \<open>float\<close>; an integer given for it multiplies as the float of the
  same value.
\<close>

record DockerSandbox =
  d_image :: string
  d_memory_limit :: string
  d_cpu_limit :: pyfloat
  d_network_enabled :: bool
  d_work_dir :: string
  d_container_name :: string
  d_auto_remove :: bool
  d_environment :: env
  d_volumes :: "string \<rightharpoonup> (string \<rightharpoonup> string)"
  d_client :: "docker_client option"
  d_container :: "docker_container option"

text \<open>
  The constructor. \<open>fresh_name\<close> is the generated name (\<open>sandbox_\<close> and eight hexadecimal
  digits) used when no name is given (\<open>None\<close> or the empty string).
\<close>

definition DockerSandbox_init ::
  "string \<Rightarrow> string \<Rightarrow> string \<Rightarrow> pyfloat \<Rightarrow> bool \<Rightarrow> string \<Rightarrow> string option \<Rightarrow> bool \<Rightarrow>
   env option \<Rightarrow> (string \<rightharpoonup> (string \<rightharpoonup> string)) option \<Rightarrow> DockerSandbox" where
  "DockerSandbox_init fresh_name image' memory_limit cpu_limit network_enabled work_dir
     container_name auto_remove environment volumes =
     \<lparr>d_image = image',
      d_memory_limit = memory_limit,
      d_cpu_limit = cpu_limit,
      d_network_enabled = network_enabled,
      d_work_dir = work_dir,
      d_container_name =
        (case container_name of
           None \<Rightarrow> fresh_name
         | Some n \<Rightarrow> if n = [] then fresh_name else n),
      d_auto_remove = auto_remove,
      d_environment = (case environment of None \<Rightarrow> Map.empty | Some e \<Rightarrow> e),
      d_volumes = (case volumes of None \<Rightarrow> Map.empty | Some v \<Rightarrow> v),
      d_client = None,
      d_container = None\<rparr>"

text \<open>
  \<open>cleanup\<close>: nothing when there is no container; otherwise the container is removed,
  the handle cleared when the removal succeeded or found no container, any other
  failure raised again, and the client closed and cleared in every case. The result is
  the exception raised (if any), the object afterwards, and the engine calls made.
\<close>

definition DockerSandbox_cleanup ::
  "DockerSandbox \<Rightarrow> pyexn option \<times> DockerSandbox \<times> docker_call list" where
  "DockerSandbox_cleanup self =
     (case d_container self of
        None \<Rightarrow> (None, self, [])
      | Some c \<Rightarrow>
          let closing = (case d_client self of None \<Rightarrow> [] | Some _ \<Rightarrow> [Call_client_close]);
              released = self\<lparr>d_client := None\<rparr>
          in (case remove c of
                None \<Rightarrow> (None, released\<lparr>d_container := None\<rparr>, Call_remove # closing)
              | Some (NotFound m) \<Rightarrow>
                  (None, released\<lparr>d_container := None\<rparr>, Call_remove # closing)
              | Some e \<Rightarrow> (Some e, released, Call_remove # closing)))"

text \<open>
  The request \<open>run_command\<close> hands to the engine (lines 175 to 188), \<open>timeout_int\<close> being
  the value of \<open>int(timeout)\<close>.
\<close>

definition DockerSandbox_exec_request ::
  "py_floats \<Rightarrow> string \<Rightarrow> string \<Rightarrow> pynum \<Rightarrow> int \<Rightarrow> env option \<Rightarrow> exec_request" where
  "DockerSandbox_exec_request py command working_dir timeout timeout_int env =
     (let wrapped_command =
            ''timeout '' @ str_int timeout_int @ '' /bin/bash -c '' @ shlex_quote command
      in \<lparr>cmd = wrapped_command,
          workdir = working_dir,
          exec_environment = env,
          demux = True,
          wait_for_timeout = py_add_int py timeout 5\<rparr>)"

text \<open>What \<open>run_command\<close> makes of the way the await ended (lines 190 to 231).\<close>

definition DockerSandbox_exec_result ::
  "py_floats \<Rightarrow> pynum \<Rightarrow> int \<Rightarrow> exec_outcome \<Rightarrow> pyexn + CommandResult" where
  "DockerSandbox_exec_result py timeout timeout_int outcome =
     (case outcome of
        Exec_returned code stdout_bytes stderr_bytes \<Rightarrow>
          let out = decode_or_empty stdout_bytes;
              err = decode_or_empty stderr_bytes
          in if code = 124
             then Inr \<lparr>exit_code = - 1,
                       stdout = out,
                       stderr = py_strip (''Command timed out after '' @
                                  str_int timeout_int @ '' seconds'' @ [CHR 0x0A] @ err)\<rparr>
             else Inr \<lparr>exit_code = code, stdout = out, stderr = err\<rparr>
      | Exec_raised (TimeoutError m) \<Rightarrow>
          Inr \<lparr>exit_code = - 1,
               stdout = [],
               stderr = ''Command timed out after '' @ str_num py timeout @ '' seconds''\<rparr>
      | Exec_raised (ContainerError exit_status m) \<Rightarrow>
          Inr \<lparr>exit_code = exit_status, stdout = [], stderr = m\<rparr>
      | Exec_raised CancelledError \<Rightarrow> Inl CancelledError
      | Exec_raised e \<Rightarrow> Inr \<lparr>exit_code = - 1, stdout = [], stderr = exn_str e\<rparr>)"

text \<open>
  \<open>run_command\<close>: the guard, then \<open>int(timeout)\<close>, which stands before the \<open>try\<close> (line
  174) and so raises to the caller when the timeout is infinite or \<open>nan\<close>, then the exec.
\<close>

definition DockerSandbox_run_command ::
  "py_floats \<Rightarrow> DockerSandbox \<Rightarrow> string \<Rightarrow> string \<Rightarrow> pynum \<Rightarrow> env option \<Rightarrow>
   (pyexn + CommandResult) \<times> docker_call list" where
  "DockerSandbox_run_command py self command working_dir timeout env =
     (case d_container self of
        None \<Rightarrow> (Inl (RuntimeError ''Sandbox not started''), [])
      | Some c \<Rightarrow>
          (case py_int timeout of
             Inl e \<Rightarrow> (Inl e, [])
           | Inr timeout_int \<Rightarrow>
               let req = DockerSandbox_exec_request py command working_dir timeout
                           timeout_int env
               in (DockerSandbox_exec_result py timeout timeout_int (exec_run c req),
                   [Call_exec_run req])))"

text \<open>
  \<open>start\<close>. The client is taken from the environment, the image looked up and pulled
  when it is not found, the container created (the handle is assigned here, line 122)
  and started, and the workspace directories made through \<open>run_command\<close>. When a step
  raises an \<open>Exception\<close>, the client is closed and cleared if there is one, and the
  exception raised again; the container handle is left as it is. The result is the
  exception raised (if any), the object afterwards, and the engine calls made.
\<close>

definition DockerSandbox_start_failed ::
  "pyexn \<Rightarrow> DockerSandbox \<Rightarrow> docker_call list \<Rightarrow>
   pyexn option \<times> DockerSandbox \<times> docker_call list" where
  "DockerSandbox_start_failed e self calls =
     (if is_Exception e
      then (case d_client self of
              None \<Rightarrow> (Some e, self, calls)
            | Some cl \<Rightarrow> (Some e, self\<lparr>d_client := None\<rparr>, calls @ [Call_client_close]))
      else (Some e, self, calls))"

definition DockerSandbox_container_config :: "DockerSandbox \<Rightarrow> int \<Rightarrow> container_config" where
  "DockerSandbox_container_config self nano_cpus =
     \<lparr>cc_image = d_image self,
      cc_name = d_container_name self,
      cc_detach = True,
      cc_tty = True,
      cc_stdin_open = True,
      cc_working_dir = d_work_dir self,
      cc_mem_limit = d_memory_limit self,
      cc_nano_cpus = nano_cpus,
      cc_network_mode = (if d_network_enabled self then ''bridge'' else ''none''),
      cc_command = ''/bin/bash'',
      cc_auto_remove = d_auto_remove self,
      cc_environment = d_environment self,
      cc_volumes = (if d_volumes self = Map.empty then None else Some (d_volumes self))\<rparr>"

definition DockerSandbox_start ::
  "py_floats \<Rightarrow> docker_engine \<Rightarrow> DockerSandbox \<Rightarrow>
   pyexn option \<times> DockerSandbox \<times> docker_call list" where
  "DockerSandbox_start py engine self =
     (case from_env engine of
        Inl e \<Rightarrow> DockerSandbox_start_failed e self [Call_from_env]
      | Inr cl \<Rightarrow>
          let s1 = self\<lparr>d_client := Some cl\<rparr>;
              looked = [Call_from_env, Call_images_get (d_image self)];
              pulled = (case images_get engine (d_image self) of
                          Image_found \<Rightarrow> (None, looked)
                        | Image_not_found \<Rightarrow>
                            (images_pull engine (d_image self),
                             looked @ [Call_images_pull (d_image self)])
                        | Image_lookup_raised e \<Rightarrow> (Some e, looked))
          in (case fst pulled of
                Some e \<Rightarrow> DockerSandbox_start_failed e s1 (snd pulled)
              | None \<Rightarrow>
                  (case int_of_float (float_mul py (d_cpu_limit self) (Finite 1000000000)) of
                     Inl e \<Rightarrow> DockerSandbox_start_failed e s1 (snd pulled)
                   | Inr nano_cpus \<Rightarrow>
                       let config = DockerSandbox_container_config self nano_cpus;
                           created = snd pulled @ [Call_containers_create config]
                       in (case containers_create engine config of
                             Inl e \<Rightarrow> DockerSandbox_start_failed e s1 created
                           | Inr c \<Rightarrow>
                               let s2 = s1\<lparr>d_container := Some c\<rparr>;
                                   started = created @ [Call_container_start]
                               in (case start c of
                                     Some e \<Rightarrow> DockerSandbox_start_failed e s2 started
                                   | None \<Rightarrow>
                                       let made = DockerSandbox_run_command py s2
                                                    WORKSPACE_INIT_COMMAND ''/workspace''
                                                    (NInt 120) None
                                       in (case fst made of
                                             Inl e \<Rightarrow>
                                               DockerSandbox_start_failed e s2
                                                 (started @ snd made)
                                           | Inr r \<Rightarrow>
                                               (None, s2, started @ snd made)))))))"

definition DockerSandbox_read_file ::
  "DockerSandbox \<Rightarrow> string \<Rightarrow> (pyexn + string) \<times> docker_call list" where
  "DockerSandbox_read_file self path =
     (case d_container self of
        None \<Rightarrow> (Inl (RuntimeError ''Sandbox not started''), [])
      | Some c \<Rightarrow>
          (case get_archive c path of
             Inl (NotFound m) \<Rightarrow> Inl (FileNotFoundError (''File not found: '' @ path))
           | Inl e \<Rightarrow> Inl e
           | Inr [] \<Rightarrow> Inl (IndexError ''list index out of range'')
           | Inr (None # rest) \<Rightarrow> Inl (FileNotFoundError (''File not found: '' @ path))
           | Inr (Some text # rest) \<Rightarrow> Inr text,
           [Call_get_archive path]))"

definition DockerSandbox_write_file ::
  "py_floats \<Rightarrow> DockerSandbox \<Rightarrow> string \<Rightarrow> string \<Rightarrow>
   pyexn option \<times> docker_call list" where
  "DockerSandbox_write_file py self path content =
     (case d_container self of
        None \<Rightarrow> (Some (RuntimeError ''Sandbox not started''), [])
      | Some c \<Rightarrow>
          let parts = split_on CHR ''/'' path;
              name = last parts;
              joined = join_with ''/'' (butlast parts);
              dir_path = (if joined = [] then ''/'' else joined);
              made = DockerSandbox_run_command py self
                       (''mkdir -p '' @ shlex_quote dir_path) ''/workspace'' (NInt 120) None
          in (case fst made of
                Inl e \<Rightarrow> (Some e, snd made)
              | Inr r \<Rightarrow>
                  (put_archive c dir_path name content,
                   snd made @ [Call_put_archive dir_path name content])))"

section \<open>sandbox/daytona\_sandbox.py: the cloud workspace backend\<close>

text \<open>
  The call \<open>asyncio.wait_for(run_in_executor(sandbox.process.exec(...)), timeout=timeout)\<close>
  and how it ends: a response with its exit code and its \<open>result\<close> text (possibly
  \<open>None\<close>), or an exception. The argument \<open>int(timeout)\<close> is evaluated inside the awaited
  call, so its value or its failure is part of the request, and a failure reaches
  \<open>run_command\<close> through the await like any other exception.
\<close>

record process_exec_request =
  pe_command :: string
  pe_cwd :: string
  pe_env :: "env option"
  pe_timeout :: "pyexn + int"
  pe_wait_for_timeout :: pynum

datatype process_exec_outcome =
    Process_returned int "string option"
  | Process_raised pyexn

text \<open>The remote workspace handle: how the SDK answers each call made through it.\<close>

record daytona_workspace =
  process_exec :: "process_exec_request \<Rightarrow> process_exec_outcome"
  fs_download_file :: "string \<Rightarrow> pyexn + string"
  fs_upload_file :: "string \<Rightarrow> string \<Rightarrow> pyexn option"
  delete :: "pyexn option"

datatype daytona_client = DaytonaClient

text \<open>The parameters \<open>start\<close> hands to \<open>client.create\<close>.\<close>

record create_params =
  cp_image :: string
  cp_cpu :: int
  cp_memory :: int
  cp_disk :: int
  cp_auto_stop_interval :: int

text \<open>
  The SDK as \<open>start\<close> meets it: importing it and constructing the client from the API
  key, importing the parameter classes, and \<open>client.create\<close>.
\<close>

record daytona_sdk =
  new_client :: "string \<Rightarrow> pyexn + daytona_client"
  import_params :: "pyexn option"
  client_create :: "create_params \<Rightarrow> pyexn + daytona_workspace"

datatype daytona_call =
    Call_new_client string
  | Call_client_create create_params
  | Call_process_exec process_exec_request
  | Call_download_file string
  | Call_upload_file string string
  | Call_delete

record DaytonaSandbox =
  y_api_key :: string
  y_server_url :: string
  y_target :: string
  y_image :: string
  y_cpu :: int
  y_memory :: int
  y_disk :: int
  y_auto_stop_interval :: int
  y_client :: "daytona_client option"
  y_sandbox :: "daytona_workspace option"

definition DaytonaSandbox_init ::
  "string \<Rightarrow> string \<Rightarrow> string \<Rightarrow> string \<Rightarrow> int \<Rightarrow> int \<Rightarrow> int \<Rightarrow> int \<Rightarrow> DaytonaSandbox" where
  "DaytonaSandbox_init api_key server_url target image' cpu memory disk auto_stop_interval =
     \<lparr>y_api_key = api_key,
      y_server_url = server_url,
      y_target = target,
      y_image = image',
      y_cpu = cpu,
      y_memory = memory,
      y_disk = disk,
      y_auto_stop_interval = auto_stop_interval,
      y_client = None,
      y_sandbox = None\<rparr>"

text \<open>
  \<open>cleanup\<close>: nothing when there is no workspace; otherwise the workspace is deleted and
  its handle cleared, a failure of the deletion raised again with the handle kept, and
  the client cleared in every case.
\<close>

definition DaytonaSandbox_cleanup ::
  "DaytonaSandbox \<Rightarrow> pyexn option \<times> DaytonaSandbox \<times> daytona_call list" where
  "DaytonaSandbox_cleanup self =
     (case y_sandbox self of
        None \<Rightarrow> (None, self, [])
      | Some w \<Rightarrow>
          (case delete w of
             None \<Rightarrow> (None, self\<lparr>y_sandbox := None, y_client := None\<rparr>, [Call_delete])
           | Some e \<Rightarrow> (Some e, self\<lparr>y_client := None\<rparr>, [Call_delete])))"

definition DaytonaSandbox_exec_request ::
  "string \<Rightarrow> string \<Rightarrow> pynum \<Rightarrow> env option \<Rightarrow> process_exec_request" where
  "DaytonaSandbox_exec_request command working_dir timeout env =
     \<lparr>pe_command = command,
      pe_cwd = working_dir,
      pe_env = env,
      pe_timeout = py_int timeout,
      pe_wait_for_timeout = timeout\<rparr>"

definition DaytonaSandbox_exec_result ::
  "py_floats \<Rightarrow> pynum \<Rightarrow> process_exec_outcome \<Rightarrow> pyexn + CommandResult" where
  "DaytonaSandbox_exec_result py timeout outcome =
     (case outcome of
        Process_returned code result \<Rightarrow>
          Inr \<lparr>exit_code = code, stdout = decode_or_empty result, stderr = []\<rparr>
      | Process_raised (TimeoutError m) \<Rightarrow>
          Inr \<lparr>exit_code = - 1,
               stdout = [],
               stderr = ''Command timed out after '' @ str_num py timeout @ '' seconds''\<rparr>
      | Process_raised CancelledError \<Rightarrow> Inl CancelledError
      | Process_raised e \<Rightarrow> Inr \<lparr>exit_code = - 1, stdout = [], stderr = exn_str e\<rparr>)"

definition DaytonaSandbox_run_command ::
  "py_floats \<Rightarrow> DaytonaSandbox \<Rightarrow> string \<Rightarrow> string \<Rightarrow> pynum \<Rightarrow> env option \<Rightarrow>
   (pyexn + CommandResult) \<times> daytona_call list" where
  "DaytonaSandbox_run_command py self command working_dir timeout env =
     (case y_sandbox self of
        None \<Rightarrow> (Inl (RuntimeError ''Sandbox not started''), [])
      | Some w \<Rightarrow>
          let req = DaytonaSandbox_exec_request command working_dir timeout env
          in (DaytonaSandbox_exec_result py timeout (process_exec w req),
              [Call_process_exec req]))"

text \<open>
  \<open>start\<close>. The client is the one the object holds or a new one (\<open>_get_client\<close>, which
  turns an \<open>ImportError\<close> into one with its own message), the workspace is created (the
  handle is assigned here, line 115) and the workspace directories are made through
  \<open>run_command\<close>. An exception of any step is raised again, and the object stays as the
  steps before left it.
\<close>

definition DaytonaSandbox_start ::
  "py_floats \<Rightarrow> daytona_sdk \<Rightarrow> DaytonaSandbox \<Rightarrow>
   pyexn option \<times> DaytonaSandbox \<times> daytona_call list" where
  "DaytonaSandbox_start py sdk self =
     (let got = (case y_client self of
                   Some cl \<Rightarrow> (None, self, [])
                 | None \<Rightarrow>
                     (case new_client sdk (y_api_key self) of
                        Inl (ImportError m) \<Rightarrow>
                          (Some (ImportError
                             (''daytona-sdk package is required for DaytonaSandbox. '' @
                              ''Install it with: pip install daytona-sdk'')),
                           self, [Call_new_client (y_api_key self)])
                      | Inl e \<Rightarrow> (Some e, self, [Call_new_client (y_api_key self)])
                      | Inr cl \<Rightarrow>
                          (None, self\<lparr>y_client := Some cl\<rparr>,
                           [Call_new_client (y_api_key self)])));
          s1 = fst (snd got);
          calls = snd (snd got)
      in (case fst got of
            Some e \<Rightarrow> (Some e, s1, calls)
          | None \<Rightarrow>
              (case import_params sdk of
                 Some e \<Rightarrow> (Some e, s1, calls)
               | None \<Rightarrow>
                   let params = \<lparr>cp_image = y_image self,
                                 cp_cpu = y_cpu self,
                                 cp_memory = y_memory self,
                                 cp_disk = y_disk self,
                                 cp_auto_stop_interval = y_auto_stop_interval self\<rparr>;
                       created = calls @ [Call_client_create params]
                   in (case client_create sdk params of
                         Inl e \<Rightarrow> (Some e, s1, created)
                       | Inr w \<Rightarrow>
                           let s2 = s1\<lparr>y_sandbox := Some w\<rparr>;
                               made = DaytonaSandbox_run_command py s2 WORKSPACE_INIT_COMMAND
                                        ''/workspace'' (NInt 120) None
                           in (case fst made of
                                 Inl e \<Rightarrow> (Some e, s2, created @ snd made)
                               | Inr r \<Rightarrow> (None, s2, created @ snd made))))))"

definition DaytonaSandbox_read_file ::
  "DaytonaSandbox \<Rightarrow> string \<Rightarrow> (pyexn + string) \<times> daytona_call list" where
  "DaytonaSandbox_read_file self path =
     (case y_sandbox self of
        None \<Rightarrow> (Inl (RuntimeError ''Sandbox not started''), [])
      | Some w \<Rightarrow>
          (case fs_download_file w path of
             Inr data \<Rightarrow> Inr data
           | Inl e \<Rightarrow>
               if is_Exception e \<and> str_contains ''not found'' (py_lower (exn_str e))
               then Inl (FileNotFoundError (''File not found: '' @ path))
               else Inl e,
           [Call_download_file path]))"

definition DaytonaSandbox_write_file ::
  "py_floats \<Rightarrow> DaytonaSandbox \<Rightarrow> string \<Rightarrow> string \<Rightarrow>
   pyexn option \<times> daytona_call list" where
  "DaytonaSandbox_write_file py self path content =
     (case y_sandbox self of
        None \<Rightarrow> (Some (RuntimeError ''Sandbox not started''), [])
      | Some w \<Rightarrow>
          let dir_path = join_with ''/'' (butlast (split_on CHR ''/'' path));
              made = (if dir_path = [] then (None, [])
                      else (case DaytonaSandbox_run_command py self
                                   (''mkdir -p '' @ shlex_quote dir_path) ''/workspace''
                                   (NInt 120) None of
                              (Inl e, calls) \<Rightarrow> (Some e, calls)
                            | (Inr r, calls) \<Rightarrow> (None, calls)))
          in (case fst made of
                Some e \<Rightarrow> (Some e, snd made)
              | None \<Rightarrow>
                  (fs_upload_file w content path,
                   snd made @ [Call_upload_file content path])))"

section \<open>sandbox/factory.py: configuration and construction\<close>

definition DEFAULT_PASS_ENV_VARS :: "string list" where
  "DEFAULT_PASS_ENV_VARS = [''TAVILY_API_KEY'']"

record DockerSandboxConfig =
  image :: string
  memory_limit :: string
  cpu_limit :: pyfloat
  network_enabled :: bool
  work_dir :: string
  auto_remove :: bool
  environment :: "env option"
  pass_env_vars :: "string list option"
  volumes :: "env option"

record DaytonaSandboxConfig =
  api_key :: string
  server_url :: string
  target :: string
  daytona_image :: string
  cpu :: int
  memory :: int
  disk :: int
  auto_stop_interval :: int

datatype SandboxConfig = DockerConfig DockerSandboxConfig | DaytonaConfig DaytonaSandboxConfig

datatype Sandbox = Docker DockerSandbox | Daytona DaytonaSandbox

text \<open>
  The loop of \<open>_build_environment\<close> over the names to pass through: a name not yet in
  the map receives the host's value, when the host has one and it is not empty.
  \<open>environ\<close> is \<open>os.environ\<close>.
\<close>

fun pass_through :: "env \<Rightarrow> string list \<Rightarrow> env \<Rightarrow> env" where
  "pass_through environ [] env = env"
| "pass_through environ (var_name # rest) env =
     pass_through environ rest
       (if env var_name = None
        then (case environ var_name of
                None \<Rightarrow> env
              | Some v \<Rightarrow> if v = [] then env else env(var_name \<mapsto> v))
        else env)"

definition build_environment :: "env \<Rightarrow> DockerSandboxConfig \<Rightarrow> env" where
  "build_environment environ config =
     (let env = (case environment config of None \<Rightarrow> Map.empty | Some e \<Rightarrow> e);
          pass_vars = (case pass_env_vars config of
                         None \<Rightarrow> DEFAULT_PASS_ENV_VARS
                       | Some vs \<Rightarrow> vs)
      in pass_through environ pass_vars env)"

text \<open>
  \<open>create_sandbox\<close>. The volume map \<open>{host: container}\<close> becomes
  \<open>{host: {"bind": container, "mode": "rw"}}\<close>, an absent or empty one \<open>None\<close>.
\<close>

definition docker_volumes :: "env option \<Rightarrow> (string \<rightharpoonup> (string \<rightharpoonup> string)) option" where
  "docker_volumes vs =
     (case vs of
        None \<Rightarrow> None
      | Some m \<Rightarrow>
          if m = Map.empty then None
          else Some (\<lambda>host_path.
                 map_option (\<lambda>container_path.
                    [''bind'' \<mapsto> container_path, ''mode'' \<mapsto> ''rw'']) (m host_path)))"

definition create_sandbox :: "env \<Rightarrow> string \<Rightarrow> SandboxConfig \<Rightarrow> Sandbox" where
  "create_sandbox environ fresh_name config =
     (case config of
        DockerConfig c \<Rightarrow>
          Docker (DockerSandbox_init fresh_name (image c) (memory_limit c) (cpu_limit c)
                    (network_enabled c) (work_dir c) None (auto_remove c)
                    (Some (build_environment environ c)) (docker_volumes (volumes c)))
      | DaytonaConfig c \<Rightarrow>
          Daytona (DaytonaSandbox_init (api_key c) (server_url c) (target c) (daytona_image c)
                     (cpu c) (memory c) (disk c) (auto_stop_interval c)))"

section \<open>tools/sandbox/executor.py and tools/sandbox/file\_ops.py: the tool layer\<close>

text \<open>
  \<open>posixpath.normpath\<close>: the empty path is \<open>.\<close>; one leading slash is kept, exactly two
  are kept, three or more become one; empty and \<open>.\<close> components are dropped; a \<open>..\<close>
  removes the component before it, is dropped at the root of an absolute path, and is
  kept at the start of a relative one.
\<close>

definition initial_slashes :: "string \<Rightarrow> nat" where
  "initial_slashes path =
     (if take 1 path = ''/''
      then (if take 2 path = ''//'' \<and> take 3 path \<noteq> ''///'' then 2 else 1)
      else 0)"

definition normpath_step :: "nat \<Rightarrow> string list \<Rightarrow> string \<Rightarrow> string list" where
  "normpath_step slashes new_comps comp' =
     (if comp' = [] \<or> comp' = ''.'' then new_comps
      else if comp' \<noteq> ''..'' \<or> (slashes = 0 \<and> new_comps = []) \<or>
              (new_comps \<noteq> [] \<and> last new_comps = ''..'')
      then new_comps @ [comp']
      else if new_comps \<noteq> [] then butlast new_comps
      else new_comps)"

definition normpath :: "string \<Rightarrow> string" where
  "normpath path =
     (if path = [] then ''.''
      else let slashes = initial_slashes path;
               comps = foldl (normpath_step slashes) [] (split_on CHR ''/'' path);
               joined = replicate slashes CHR ''/'' @ join_with ''/'' comps
           in if joined = [] then ''.'' else joined)"

text \<open>
  \<open>pathlib.PurePosixPath\<close>: a root (empty, one slash, or two slashes when the text starts
  with exactly two) and the components after it, the empty and \<open>.\<close> ones dropped. Two
  paths are equal when root and components are.
\<close>

record PurePosixPath =
  root :: string
  parts :: "string list"

definition PurePosixPath_of :: "string \<Rightarrow> PurePosixPath" where
  "PurePosixPath_of s =
     (let stripped = dropWhile (\<lambda>c. c = CHR ''/'') s;
          n = length s - length stripped
      in \<lparr>root = (if n = 0 then [] else if n = 2 then ''//'' else ''/''),
          parts = filter (\<lambda>x. x \<noteq> [] \<and> x \<noteq> ''.'') (split_on CHR ''/'' stripped)\<rparr>)"

definition is_absolute :: "PurePosixPath \<Rightarrow> bool" where
  "is_absolute p \<longleftrightarrow> root p \<noteq> []"

text \<open>\<open>p.parents\<close>: the ancestors of \<open>p\<close>, nearest first, ending with the root (or \<open>.\<close>).\<close>

definition parents :: "PurePosixPath \<Rightarrow> PurePosixPath list" where
  "parents p = map (\<lambda>k. p\<lparr>parts := take k (parts p)\<rparr>) (rev [0..<length (parts p)])"

definition as_posix :: "PurePosixPath \<Rightarrow> string" where
  "as_posix p =
     (if root p = [] \<and> parts p = [] then ''.'' else root p @ join_with ''/'' (parts p))"

definition ALLOWED_BASE_PATHS :: "PurePosixPath list" where
  "ALLOWED_BASE_PATHS = [PurePosixPath_of ''/workspace'']"

text \<open>
  \<open>str\<close> of a list of strings, each written in single quotes (the form \<open>repr\<close> gives a
  string without quotes, backslashes or control characters, as the allowed roots are).
\<close>

definition str_of_str_list :: "string list \<Rightarrow> string" where
  "str_of_str_list xs =
     ''['' @ join_with '', '' (map (\<lambda>x. [CHR 0x27] @ x @ [CHR 0x27]) xs) @ '']''"

definition validate_path :: "string \<Rightarrow> pyexn + string" where
  "validate_path path =
     (let normalized = PurePosixPath_of (normpath path)
      in if \<not> is_absolute normalized
         then Inl (ValueError (''Path must be absolute, got: '' @ [CHR 0x27] @ path @
                               [CHR 0x27]))
         else if \<not> list_ex (\<lambda>base. normalized = base \<or> base \<in> set (parents normalized))
                        ALLOWED_BASE_PATHS
         then Inl (ValueError (''Path '' @ [CHR 0x27] @ path @ [CHR 0x27] @
                               '' is outside allowed directories. Allowed: '' @
                               str_of_str_list (map as_posix ALLOWED_BASE_PATHS)))
         else Inr (as_posix normalized))"

text \<open>
  The sandbox as the tool layer sees it: any implementation of the contract. A call
  returns a value or raises.
\<close>

record BaseSandbox =
  sandbox_read_file :: "string \<Rightarrow> pyexn + string"
  sandbox_write_file :: "string \<Rightarrow> string \<Rightarrow> pyexn option"

datatype sandbox_call = Call_read_file string | Call_write_file string string

record SandboxToolExecutor =
  sandbox :: BaseSandbox
  max_output_chars :: int
  default_timeout :: pynum

definition truncate :: "SandboxToolExecutor \<Rightarrow> string \<Rightarrow> string" where
  "truncate executor text = truncate_output text (max_output_chars executor)"

definition error_result :: "string \<Rightarrow> pydict" where
  "error_result message = [(''status'', VStr ''error''), (''error'', VStr message)]"

text \<open>
  The \<open>except\<close> clauses of \<open>read_file\<close> and of \<open>write_file\<close>, in their order; an exception
  none of them catches leaves the tool.
\<close>

fun read_file_except :: "string \<Rightarrow> pyexn \<Rightarrow> pyexn + pydict" where
  "read_file_except path (ValueError m) = Inr (error_result m)"
| "read_file_except path (FileNotFoundError m) = Inr (error_result (''File not found: '' @ path))"
| "read_file_except path CancelledError = Inl CancelledError"
| "read_file_except path e = Inr (error_result (exn_str e))"

fun write_file_except :: "pyexn \<Rightarrow> pyexn + pydict" where
  "write_file_except CancelledError = Inl CancelledError"
| "write_file_except e = Inr (error_result (exn_str e))"

text \<open>
  The two tools: the result (a dictionary, or the exception that leaves the tool), and
  the calls made on the sandbox.
\<close>

definition read_file ::
  "SandboxToolExecutor \<Rightarrow> string \<Rightarrow> (pyexn + pydict) \<times> sandbox_call list" where
  "read_file executor path =
     (case validate_path path of
        Inl e \<Rightarrow> (read_file_except path e, [])
      | Inr validated_path \<Rightarrow>
          (case sandbox_read_file (sandbox executor) validated_path of
             Inl e \<Rightarrow> read_file_except path e
           | Inr content \<Rightarrow>
               Inr [(''status'', VStr ''success''),
                    (''content'', VStr (truncate executor content)),
                    (''path'', VStr validated_path)],
           [Call_read_file validated_path]))"

definition write_file ::
  "SandboxToolExecutor \<Rightarrow> string \<Rightarrow> string \<Rightarrow> (pyexn + pydict) \<times> sandbox_call list" where
  "write_file executor path content =
     (case validate_path path of
        Inl e \<Rightarrow> (write_file_except e, [])
      | Inr validated_path \<Rightarrow>
          (case sandbox_write_file (sandbox executor) validated_path content of
             Some e \<Rightarrow> write_file_except e
           | None \<Rightarrow>
               Inr [(''status'', VStr ''success''),
                    (''path'', VStr validated_path),
                    (''size'', VInt (int (length content)))],
           [Call_write_file validated_path content]))"

text \<open>
  The components \<open>normpath\<close> keeps are not empty, are not \<open>.\<close>, and hold no slash.
\<close>

definition plain_component :: "string \<Rightarrow> bool" where
  "plain_component c \<longleftrightarrow> c \<noteq> [] \<and> c \<noteq> ''.'' \<and> CHR ''/'' \<notin> set c"

section \<open>Example objects\<close>

text \<open>
  Concrete objects on which the theorems below are run: float operations that print
  the two values used below and add and multiply finite values exactly (which is what
  the doubles do on the halves and small integers used here), a container and a
  workspace that answer every exec with a given outcome, an engine and an SDK that hand
  out a given container or workspace, sandboxes, a host environment and a
  configuration.
\<close>

definition example_py :: py_floats where
  "example_py =
     \<lparr>float_repr = (\<lambda>f. if f = Finite (5 / 2) then ''2.5''
                        else if f = Finite (1 / 2) then ''0.5''
                        else if f = PosInf then ''inf''
                        else ''1.0''),
      float_add = (\<lambda>a b. case a of
                             Finite x \<Rightarrow> (case b of Finite y \<Rightarrow> Finite (x + y) | _ \<Rightarrow> b)
                           | _ \<Rightarrow> a),
      float_mul = (\<lambda>a b. case a of
                             Finite x \<Rightarrow> (case b of Finite y \<Rightarrow> Finite (x * y) | _ \<Rightarrow> b)
                           | _ \<Rightarrow> a)\<rparr>"

definition example_container :: "exec_outcome \<Rightarrow> pyexn option \<Rightarrow> docker_container" where
  "example_container outcome removal =
     \<lparr>start = None,
      exec_run = (\<lambda>req. outcome),
      get_archive = (\<lambda>path. Inr [Some ''data'']),
      put_archive = (\<lambda>dir_path name data. None),
      remove = removal\<rparr>"

definition example_engine :: "docker_container \<Rightarrow> docker_engine" where
  "example_engine c =
     \<lparr>from_env = Inr DockerClient,
      images_get = (\<lambda>image_name. Image_found),
      images_pull = (\<lambda>image_name. None),
      containers_create = (\<lambda>config. Inr c)\<rparr>"

definition example_docker :: DockerSandbox where
  "example_docker =
     DockerSandbox_init ''sandbox_1a2b3c4d'' ''python:3.12-slim'' ''512m'' (Finite 1) True
       ''/workspace'' None False None None"

definition started_docker :: "docker_container \<Rightarrow> DockerSandbox" where
  "started_docker c = example_docker\<lparr>d_client := Some DockerClient, d_container := Some c\<rparr>"

definition example_workspace :: "process_exec_outcome \<Rightarrow> pyexn option \<Rightarrow> daytona_workspace" where
  "example_workspace outcome deletion =
     \<lparr>process_exec = (\<lambda>req. outcome),
      fs_download_file = (\<lambda>path. Inr ''data''),
      fs_upload_file = (\<lambda>data path. None),
      delete = deletion\<rparr>"

definition example_sdk :: "daytona_workspace \<Rightarrow> daytona_sdk" where
  "example_sdk w =
     \<lparr>new_client = (\<lambda>key. Inr DaytonaClient),
      import_params = None,
      client_create = (\<lambda>params. Inr w)\<rparr>"

definition example_daytona :: DaytonaSandbox where
  "example_daytona =
     DaytonaSandbox_init ''key'' ''https://api.daytona.io'' ''us'' ''daytonaio/workspace:latest''
       2 4 10 30"

definition started_daytona :: "daytona_workspace \<Rightarrow> DaytonaSandbox" where
  "started_daytona w = example_daytona\<lparr>y_client := Some DaytonaClient, y_sandbox := Some w\<rparr>"

definition example_environ :: env where
  "example_environ =
     [''TAVILY_API_KEY'' \<mapsto> ''tvly-1'', ''MODE'' \<mapsto> ''host'', ''HOME'' \<mapsto> ''/root'']"

definition example_config :: DockerSandboxConfig where
  "example_config =
     \<lparr>image = ''python:3.12-slim'', memory_limit = ''512m'', cpu_limit = Finite 1,
      network_enabled = True, work_dir = ''/workspace'', auto_remove = False,
      environment = Some [''MODE'' \<mapsto> ''explicit''], pass_env_vars = None,
      volumes = None\<rparr>"

definition example_executor :: SandboxToolExecutor where
  "example_executor =
     \<lparr>sandbox = \<lparr>sandbox_read_file = (\<lambda>path. Inr ''data''),
                  sandbox_write_file = (\<lambda>path content. None)\<rparr>,
      max_output_chars = DEFAULT_MAX_OUTPUT_CHARS,
      default_timeout = NInt 120\<rparr>"

section \<open>Decimal rendering\<close>

lemma digit_char_inj: "a < 10 \<Longrightarrow> b < 10 \<Longrightarrow> digit_char a = digit_char b \<Longrightarrow> a = b"
proof -
  assume a: "a < 10" and b: "b < 10" and e: "digit_char a = digit_char b"
  have A: "a \<in> {0,1,2,3,4,5,6,7,8,9}" using a by auto
  have B: "b \<in> {0,1,2,3,4,5,6,7,8,9}" using b by auto
  show ?thesis using A B e by (auto simp: digit_char_def)
qed

lemma str_nat_small: "n < 10 \<Longrightarrow> str_nat n = [digit_char n]"
  by (subst str_nat.simps) simp

lemma str_nat_large:
  "\<not> n < 10 \<Longrightarrow> str_nat n = str_nat (n div 10) @ [digit_char (n mod 10)]"
  by (subst str_nat.simps) simp

lemma str_nat_nonempty: "str_nat n \<noteq> []"
  by (cases "n < 10") (simp_all add: str_nat_small str_nat_large)

text \<open>Two numbers with the same digits are the same number.\<close>

lemma str_nat_inj: "str_nat a = str_nat b \<Longrightarrow> a = b"
proof (induction a arbitrary: b rule: str_nat.induct)
  case (1 n)
  show ?case
  proof (cases "n < 10")
    case True
    note n_small = this
    show ?thesis
    proof (cases "b < 10")
      case True
      with n_small "1.prems" show ?thesis
        by (simp add: str_nat_small digit_char_inj)
    next
      case False
      with n_small "1.prems" have "str_nat (b div 10) = []"
        by (simp add: str_nat_small str_nat_large)
      then show ?thesis by (simp add: str_nat_nonempty)
    qed
  next
    case False
    note n_large = this
    show ?thesis
    proof (cases "b < 10")
      case True
      with n_large "1.prems" have "str_nat (n div 10) = []"
        by (simp add: str_nat_small str_nat_large)
      then show ?thesis by (simp add: str_nat_nonempty)
    next
      case False
      with n_large "1.prems" have e1: "str_nat (n div 10) = str_nat (b div 10)"
        and e2: "digit_char (n mod 10) = digit_char (b mod 10)"
        by (simp_all add: str_nat_large)
      from "1.IH"[OF n_large e1] have d: "n div 10 = b div 10" .
      from e2 have m: "n mod 10 = b mod 10" by (simp add: digit_char_inj)
      from d m show ?thesis by (metis div_mult_mod_eq)
    qed
  qed
qed

lemma truncation_marker_inj: "truncation_marker a = truncation_marker b \<Longrightarrow> a = b"
  by (auto simp: truncation_marker_def str_int_def dest: str_nat_inj)

section \<open>Output truncation\<close>

text \<open>
  Claim C2, as the code has it. For a limit \<open>max_chars \<ge> 0\<close> and a text longer than the
  limit, \<open>truncate_output\<close> returns the first \<open>max_chars\<close> characters followed by the
  marker, which reports the length of the original text; the result has exactly
  \<open>max_chars + len(marker)\<close> characters. That result is itself longer than the limit, so
  truncating it again keeps the same first \<open>max_chars\<close> characters and writes a new
  marker, which reports the length of the first result: the second truncation returns
  its input unchanged exactly when the original text already had
  \<open>max_chars + len(marker)\<close> characters.
\<close>

theorem truncate_output_long:
  assumes nonneg: "0 \<le> max_chars" and long: "max_chars < int (length text)"
  shows "truncate_output text max_chars =
           take (nat max_chars) text @ CHR 0x0A # ''... (truncated, '' @
             str_int (int (length text)) @ '' total chars)'' \<and>
         int (length (truncate_output text max_chars)) =
           max_chars + int (length (truncation_marker (length text))) \<and>
         truncate_output (truncate_output text max_chars) max_chars =
           take (nat max_chars) text @
             truncation_marker (length (truncate_output text max_chars)) \<and>
         (truncate_output (truncate_output text max_chars) max_chars =
            truncate_output text max_chars \<longleftrightarrow>
          int (length text) = max_chars + int (length (truncation_marker (length text))))"
proof -
  let ?out = "truncate_output text max_chars"
  have out: "?out = take (nat max_chars) text @ truncation_marker (length text)"
    using nonneg long by (simp add: truncate_output_def py_slice_to_def)
  have len: "int (length ?out) = max_chars + int (length (truncation_marker (length text)))"
    using nonneg long by (simp add: out)
  have "0 < length (truncation_marker (length text))"
    by (simp add: truncation_marker_def)
  with len have longer: "max_chars < int (length ?out)" by linarith
  have "take (nat max_chars) ?out = take (nat max_chars) text"
    using nonneg long by (simp add: out)
  with longer nonneg have again:
    "truncate_output ?out max_chars =
       take (nat max_chars) text @ truncation_marker (length ?out)"
    by (simp add: truncate_output_def[of ?out] py_slice_to_def)
  have "truncate_output ?out max_chars = ?out \<longleftrightarrow> length ?out = length text"
    unfolding again by (subst (2) out) (auto dest: truncation_marker_inj)
  also have "\<dots> \<longleftrightarrow> int (length text) = max_chars + int (length (truncation_marker (length text)))"
    using len by linarith
  finally have fixed: "truncate_output ?out max_chars = ?out \<longleftrightarrow>
      int (length text) = max_chars + int (length (truncation_marker (length text)))" .
  from out len again fixed show ?thesis
    by (simp add: truncation_marker_def)
qed

text \<open>
  The theorem at the text \<open>abc\<close> with limit 1: one truncation reports 3 characters and
  has 32, the second reports 32.
\<close>

theorem truncate_output_long_witness:
  "(0::int) \<le> 1 \<and> 1 < int (length ''abc'') \<and>
   truncate_output ''abc'' 1 = ''a'' @ CHR 0x0A # ''... (truncated, 3 total chars)'' \<and>
   int (length (truncate_output ''abc'' 1)) = 32 \<and>
   truncate_output (truncate_output ''abc'' 1) 1 =
     ''a'' @ CHR 0x0A # ''... (truncated, 32 total chars)''"
proof -
  have first: "truncate_output ''abc'' 1 = ''a'' @ CHR 0x0A # ''... (truncated, 3 total chars)''"
    by (simp add: truncate_output_def py_slice_to_def truncation_marker_def str_int_def
          str_nat.simps digit_char_def)
  have marker: "int (length (truncation_marker (length ''abc''))) = 31"
    by (simp add: truncation_marker_def str_int_def str_nat.simps)
  have second: "truncation_marker 32 = CHR 0x0A # ''... (truncated, 32 total chars)''"
    by (simp add: truncation_marker_def str_int_def str_nat.simps digit_char_def)
  have hyps: "(0::int) \<le> 1" "1 < int (length ''abc'')" by simp_all
  note th = truncate_output_long [OF hyps]
  from th [THEN conjunct2, THEN conjunct1]
  have len: "int (length (truncate_output ''abc'' 1)) = 32"
    unfolding marker by simp
  then have len_nat: "length (truncate_output ''abc'' 1) = 32" by linarith
  from th [THEN conjunct2, THEN conjunct2, THEN conjunct1]
  have again: "truncate_output (truncate_output ''abc'' 1) 1 =
      ''a'' @ CHR 0x0A # ''... (truncated, 32 total chars)''"
    unfolding len_nat second by simp
  from hyps first len again show ?thesis by (intro conjI)
qed

text \<open>
  Claim C2 as stated fails twice. Truncating the truncation of \<open>abc\<close> at limit 1 changes
  it (the marker now reports 32 characters, not 3), so the second truncation is not a
  no-op. And at the limit \<open>-1\<close>, which every text exceeds, the slice \<open>text[:-1]\<close> keeps
  two characters of \<open>abc\<close>: the result is three characters longer than
  \<open>max_chars + len(marker)\<close>.
\<close>

theorem truncate_output_not_idempotent:
  "1 < int (length ''abc'') \<and>
   truncate_output (truncate_output ''abc'' 1) 1 \<noteq> truncate_output ''abc'' 1 \<and>
   - 1 < int (length ''abc'') \<and>
   int (length (truncate_output ''abc'' (- 1))) \<noteq>
     - 1 + int (length (truncation_marker (length ''abc'')))"
  by (simp add: truncate_output_def py_slice_to_def truncation_marker_def str_int_def
        str_nat.simps digit_char_def)

text \<open>
  Claim C10. A text no longer than the limit is returned as it is; a result that
  differs from the text (the marker was appended) only arises from a text strictly
  longer than the limit.
\<close>

theorem truncate_output_within_limit:
  "(int (length text) \<le> max_chars \<longrightarrow> truncate_output text max_chars = text) \<and>
   (truncate_output text max_chars \<noteq> text \<longrightarrow> max_chars < int (length text)) \<and>
   (max_chars < int (length text) \<longrightarrow>
      truncate_output text max_chars =
        py_slice_to text max_chars @ truncation_marker (length text))"
  by (simp add: truncate_output_def)

theorem truncate_output_within_limit_witness:
  "int (length ''hello'') \<le> 5 \<and> truncate_output ''hello'' 5 = ''hello'' \<and>
   truncate_output ''hello'' 2 \<noteq> ''hello'' \<and> 2 < int (length ''hello'') \<and>
   truncate_output ''hello'' 2 =
     py_slice_to ''hello'' 2 @ truncation_marker (length ''hello'')"
proof -
  have short: "int (length ''hello'') \<le> 5" and long: "2 < int (length ''hello'')"
    by simp_all
  have differs: "truncate_output ''hello'' 2 \<noteq> ''hello''"
    by (simp add: truncate_output_def py_slice_to_def truncation_marker_def)
  from truncate_output_within_limit [of "''hello''" 5] short
  have same: "truncate_output ''hello'' 5 = ''hello''" by blast
  from truncate_output_within_limit [of "''hello''" 2] long
  have cut: "truncate_output ''hello'' 2 =
      py_slice_to ''hello'' 2 @ truncation_marker (length ''hello'')" by blast
  from short same differs long cut show ?thesis by blast
qed

section \<open>The command result\<close>

text \<open>
  Claim C5. The success flag of a command result is true exactly when the exit code is
  0, it is false for the exit code \<open>-1\<close>, and \<open>to_dict\<close> stores the same flag under the
  key \<open>success\<close>.
\<close>

theorem success_iff_exit_code_zero:
  "(success r \<longleftrightarrow> exit_code r = 0) \<and>
   success \<lparr>exit_code = - 1, stdout = out, stderr = err\<rparr> = False \<and>
   map_of (to_dict r) ''success'' = Some (VBool (exit_code r = 0)) \<and>
   map_of (to_dict r) ''exit_code'' = Some (VInt (exit_code r))"
  by (simp add: success_def to_dict_def)

section \<open>The environment built by the factory\<close>

lemma pass_through_lookup:
  "pass_through environ vs env k =
     (case env k of
        Some v \<Rightarrow> Some v
      | None \<Rightarrow>
          if k \<in> set vs \<and> environ k \<noteq> None \<and> environ k \<noteq> Some [] then environ k else None)"
  by (induction vs arbitrary: env) (auto split: option.splits)

text \<open>
  Claim C8. Let \<open>explicit\<close> be the configured environment map (empty when absent) and
  \<open>allow\<close> the pass-through list (the configured \<open>pass_env_vars\<close>, else the fixed list with
  the single name \<open>TAVILY_API_KEY\<close>). In the map \<open>_build_environment\<close> returns, which
  \<open>create_sandbox\<close> hands to the Docker sandbox, every explicit entry is kept; an entry
  for a name with no explicit entry is the host's non-empty value of a name on the
  allow-list; and a name that is not on the allow-list has its explicit entry or none.
\<close>

theorem build_environment_allow_list:
  assumes explicit: "explicit = (case environment config of None \<Rightarrow> Map.empty | Some e \<Rightarrow> e)"
    and allow: "allow = (case pass_env_vars config of
                            None \<Rightarrow> DEFAULT_PASS_ENV_VARS
                          | Some vs \<Rightarrow> vs)"
  shows "(explicit k = Some v \<longrightarrow> build_environment environ config k = Some v) \<and>
         (explicit k = None \<and> build_environment environ config k = Some v \<longrightarrow>
            k \<in> set allow \<and> environ k = Some v \<and> v \<noteq> []) \<and>
         (k \<notin> set allow \<longrightarrow> build_environment environ config k = explicit k) \<and>
         (k \<in> set allow \<and> explicit k = None \<and> environ k = Some v \<and> v \<noteq> [] \<longrightarrow>
            build_environment environ config k = Some v) \<and>
         DEFAULT_PASS_ENV_VARS = [''TAVILY_API_KEY''] \<and>
         (\<exists>d. create_sandbox environ fresh_name (DockerConfig config) = Docker d \<and>
              d_environment d = build_environment environ config)"
proof -
  have "\<exists>d. create_sandbox environ fresh_name (DockerConfig config) = Docker d \<and>
              d_environment d = build_environment environ config"
    by (simp add: create_sandbox_def DockerSandbox_init_def)
  then show ?thesis
    unfolding explicit allow
    by (auto simp: build_environment_def DEFAULT_PASS_ENV_VARS_def pass_through_lookup
          split: option.splits)
qed

theorem build_environment_allow_list_witness:
  "build_environment example_environ example_config ''MODE'' = Some ''explicit'' \<and>
   build_environment example_environ example_config ''TAVILY_API_KEY'' = Some ''tvly-1'' \<and>
   build_environment example_environ example_config ''HOME'' = None \<and>
   ''TAVILY_API_KEY'' \<in> set DEFAULT_PASS_ENV_VARS \<and>
   example_environ ''TAVILY_API_KEY'' = Some ''tvly-1''"
proof -
  let ?explicit = "[''MODE'' \<mapsto> ''explicit'']"
  have explicit: "?explicit =
      (case environment example_config of None \<Rightarrow> Map.empty | Some e \<Rightarrow> e)"
    by (simp add: example_config_def)
  have allow: "DEFAULT_PASS_ENV_VARS =
      (case pass_env_vars example_config of None \<Rightarrow> DEFAULT_PASS_ENV_VARS | Some vs \<Rightarrow> vs)"
    by (simp add: example_config_def)
  note th = build_environment_allow_list [OF explicit allow, where environ = example_environ]
  have "?explicit ''MODE'' = Some ''explicit''" by simp
  with th [where k = "''MODE''" and v = "''explicit''", THEN conjunct1]
  have kept: "build_environment example_environ example_config ''MODE'' = Some ''explicit''"
    by (rule mp)
  have "''TAVILY_API_KEY'' \<in> set DEFAULT_PASS_ENV_VARS \<and> ?explicit ''TAVILY_API_KEY'' = None \<and>
      example_environ ''TAVILY_API_KEY'' = Some ''tvly-1'' \<and> ''tvly-1'' \<noteq> []"
    by (simp add: DEFAULT_PASS_ENV_VARS_def example_environ_def)
  with th [where k = "''TAVILY_API_KEY''" and v = "''tvly-1''",
      THEN conjunct2, THEN conjunct2, THEN conjunct2, THEN conjunct1]
  have passed: "build_environment example_environ example_config ''TAVILY_API_KEY'' =
      Some ''tvly-1''"
    by (rule mp)
  have "''HOME'' \<notin> set DEFAULT_PASS_ENV_VARS" by (simp add: DEFAULT_PASS_ENV_VARS_def)
  with th [where k = "''HOME''", THEN conjunct2, THEN conjunct2, THEN conjunct1]
  have "build_environment example_environ example_config ''HOME'' = ?explicit ''HOME''"
    by (rule mp)
  then have absent: "build_environment example_environ example_config ''HOME'' = None"
    by simp
  from passed have "?explicit ''TAVILY_API_KEY'' = None \<and>
      build_environment example_environ example_config ''TAVILY_API_KEY'' = Some ''tvly-1''"
    by simp
  with th [where k = "''TAVILY_API_KEY''" and v = "''tvly-1''", THEN conjunct2, THEN conjunct1]
  have origin: "''TAVILY_API_KEY'' \<in> set DEFAULT_PASS_ENV_VARS \<and>
      example_environ ''TAVILY_API_KEY'' = Some ''tvly-1'' \<and> ''tvly-1'' \<noteq> []"
    by (rule mp)
  from kept passed absent origin show ?thesis by (intro conjI) simp_all
qed

section \<open>The sandbox life cycle\<close>

text \<open>
  Where \<open>start\<close> leaves the instance handle. Starting from an object without a handle,
  the handle is set afterwards exactly when the engine was asked to create the
  container (or the SDK the workspace) and returned one, whether \<open>start\<close> then went on to
  return or to raise.
\<close>

lemma DockerSandbox_start_handle:
  assumes "d_container self = None"
  shows "d_container (fst (snd (DockerSandbox_start py engine self))) \<noteq> None \<longleftrightarrow>
         (\<exists>config c. Call_containers_create config \<in>
                        set (snd (snd (DockerSandbox_start py engine self))) \<and>
                      containers_create engine config = Inr c)"
  using assms
  by (auto simp: DockerSandbox_start_def DockerSandbox_start_failed_def
        DockerSandbox_run_command_def Let_def
        split: sum.splits option.splits image_lookup.splits)

lemma DaytonaSandbox_start_handle:
  assumes "y_sandbox self = None"
  shows "y_sandbox (fst (snd (DaytonaSandbox_start py sdk self))) \<noteq> None \<longleftrightarrow>
         (\<exists>params w. Call_client_create params \<in>
                        set (snd (snd (DaytonaSandbox_start py sdk self))) \<and>
                      client_create sdk params = Inr w)"
  using assms
  by (auto simp: DaytonaSandbox_start_def DaytonaSandbox_run_command_def Let_def
        split: sum.splits option.splits pyexn.splits)

lemma DockerSandbox_start_returned:
  "fst (DockerSandbox_start py engine self) = None \<Longrightarrow>
   d_container (fst (snd (DockerSandbox_start py engine self))) \<noteq> None"
  by (auto simp: DockerSandbox_start_def DockerSandbox_start_failed_def Let_def
        split: sum.splits option.splits image_lookup.splits if_splits)

lemma DaytonaSandbox_start_returned:
  "fst (DaytonaSandbox_start py sdk self) = None \<Longrightarrow>
   y_sandbox (fst (snd (DaytonaSandbox_start py sdk self))) \<noteq> None"
  by (auto simp: DaytonaSandbox_start_def Let_def
        split: sum.splits option.splits pyexn.splits)

lemma DockerSandbox_run_command_started:
  "d_container d \<noteq> None \<Longrightarrow>
   fst (DockerSandbox_run_command py d command working_dir timeout env) \<noteq>
     Inl (RuntimeError ''Sandbox not started'')"
proof -
  have int_error: "py_int timeout \<noteq> Inl (RuntimeError m)" for m
    by (cases timeout rule: py_int.cases) (auto elim: int_of_float.elims)
  have result: "DockerSandbox_exec_result py timeout k outcome \<noteq> Inl (RuntimeError m)"
    for k outcome m
    by (auto simp: DockerSandbox_exec_result_def Let_def
          split: exec_outcome.splits pyexn.splits)
  assume "d_container d \<noteq> None"
  then show ?thesis
    using int_error result
    by (auto simp: DockerSandbox_run_command_def Let_def split: sum.splits)
qed

lemma DaytonaSandbox_run_command_started:
  "y_sandbox y \<noteq> None \<Longrightarrow>
   fst (DaytonaSandbox_run_command py y command working_dir timeout env) \<noteq>
     Inl (RuntimeError ''Sandbox not started'')"
  by (auto simp: DaytonaSandbox_run_command_def DaytonaSandbox_exec_result_def Let_def
        split: process_exec_outcome.splits pyexn.splits)

text \<open>
  Claim C6, as the code has it. The guard of \<open>run_command\<close>, \<open>read_file\<close> and \<open>write_file\<close>
  tests the instance handle. A sandbox just constructed has no handle, and neither has
  one left by a \<open>cleanup\<close> that returned normally; a \<open>start\<close> on a sandbox without a
  handle leaves it without one exactly when no container (no workspace) was created.
  On a sandbox without a handle the three operations of either backend raise
  \<open>RuntimeError("Sandbox not started")\<close> and make no call on the engine or the SDK. The
  handle is assigned as soon as the container or workspace is created, before \<open>start\<close>
  has completed: a \<open>start\<close> that returned has set it, and once it is set \<open>run_command\<close>
  does not raise that error, also when \<open>start\<close> failed after the creation.
\<close>

theorem not_started_error:
  "d_container (DockerSandbox_init fresh_name i m c n w cn ar e v) = None \<and>
   y_sandbox (DaytonaSandbox_init k u g i' cp mem dk asi) = None \<and>
   (fst (DockerSandbox_cleanup d0) = None \<longrightarrow>
      d_container (fst (snd (DockerSandbox_cleanup d0))) = None) \<and>
   (fst (DaytonaSandbox_cleanup y0) = None \<longrightarrow>
      y_sandbox (fst (snd (DaytonaSandbox_cleanup y0))) = None) \<and>
   (d_container d = None \<longrightarrow>
      DockerSandbox_run_command py d command working_dir timeout env =
        (Inl (RuntimeError ''Sandbox not started''), []) \<and>
      DockerSandbox_read_file d path = (Inl (RuntimeError ''Sandbox not started''), []) \<and>
      DockerSandbox_write_file py d path content =
        (Some (RuntimeError ''Sandbox not started''), [])) \<and>
   (y_sandbox y = None \<longrightarrow>
      DaytonaSandbox_run_command py y command working_dir timeout env =
        (Inl (RuntimeError ''Sandbox not started''), []) \<and>
      DaytonaSandbox_read_file y path = (Inl (RuntimeError ''Sandbox not started''), []) \<and>
      DaytonaSandbox_write_file py y path content =
        (Some (RuntimeError ''Sandbox not started''), [])) \<and>
   (d_container d = None \<longrightarrow>
      (d_container (fst (snd (DockerSandbox_start py engine d))) = None \<longleftrightarrow>
       \<not> (\<exists>config created.
             Call_containers_create config \<in> set (snd (snd (DockerSandbox_start py engine d))) \<and>
             containers_create engine config = Inr created))) \<and>
   (y_sandbox y = None \<longrightarrow>
      (y_sandbox (fst (snd (DaytonaSandbox_start py sdk y))) = None \<longleftrightarrow>
       \<not> (\<exists>params created.
             Call_client_create params \<in> set (snd (snd (DaytonaSandbox_start py sdk y))) \<and>
             client_create sdk params = Inr created))) \<and>
   (fst (DockerSandbox_start py engine d) = None \<longrightarrow>
      d_container (fst (snd (DockerSandbox_start py engine d))) \<noteq> None) \<and>
   (fst (DaytonaSandbox_start py sdk y) = None \<longrightarrow>
      y_sandbox (fst (snd (DaytonaSandbox_start py sdk y))) \<noteq> None) \<and>
   (d_container d \<noteq> None \<longrightarrow>
      fst (DockerSandbox_run_command py d command working_dir timeout env) \<noteq>
        Inl (RuntimeError ''Sandbox not started'')) \<and>
   (y_sandbox y \<noteq> None \<longrightarrow>
      fst (DaytonaSandbox_run_command py y command working_dir timeout env) \<noteq>
        Inl (RuntimeError ''Sandbox not started''))"
proof -
  have docker_cleared: "fst (DockerSandbox_cleanup d0) = None \<longrightarrow>
      d_container (fst (snd (DockerSandbox_cleanup d0))) = None"
    by (auto simp: DockerSandbox_cleanup_def Let_def split: option.splits pyexn.splits)
  have daytona_cleared: "fst (DaytonaSandbox_cleanup y0) = None \<longrightarrow>
      y_sandbox (fst (snd (DaytonaSandbox_cleanup y0))) = None"
    by (auto simp: DaytonaSandbox_cleanup_def split: option.splits)
  have guards: "d_container (DockerSandbox_init fresh_name i m c n w cn ar e v) = None \<and>
      y_sandbox (DaytonaSandbox_init k u g i' cp mem dk asi) = None \<and>
      (d_container d = None \<longrightarrow>
        DockerSandbox_run_command py d command working_dir timeout env =
          (Inl (RuntimeError ''Sandbox not started''), []) \<and>
        DockerSandbox_read_file d path = (Inl (RuntimeError ''Sandbox not started''), []) \<and>
        DockerSandbox_write_file py d path content =
          (Some (RuntimeError ''Sandbox not started''), [])) \<and>
      (y_sandbox y = None \<longrightarrow>
        DaytonaSandbox_run_command py y command working_dir timeout env =
          (Inl (RuntimeError ''Sandbox not started''), []) \<and>
        DaytonaSandbox_read_file y path = (Inl (RuntimeError ''Sandbox not started''), []) \<and>
        DaytonaSandbox_write_file py y path content =
          (Some (RuntimeError ''Sandbox not started''), []))"
    by (simp add: DockerSandbox_init_def DaytonaSandbox_init_def
          DockerSandbox_run_command_def DockerSandbox_read_file_def
          DockerSandbox_write_file_def DaytonaSandbox_run_command_def
          DaytonaSandbox_read_file_def DaytonaSandbox_write_file_def)
  have docker_start: "d_container d = None \<longrightarrow>
      (d_container (fst (snd (DockerSandbox_start py engine d))) = None \<longleftrightarrow>
       \<not> (\<exists>config created.
             Call_containers_create config \<in> set (snd (snd (DockerSandbox_start py engine d))) \<and>
             containers_create engine config = Inr created))"
    using DockerSandbox_start_handle [of d py engine] by blast
  have daytona_start: "y_sandbox y = None \<longrightarrow>
      (y_sandbox (fst (snd (DaytonaSandbox_start py sdk y))) = None \<longleftrightarrow>
       \<not> (\<exists>params created.
             Call_client_create params \<in> set (snd (snd (DaytonaSandbox_start py sdk y))) \<and>
             client_create sdk params = Inr created))"
    using DaytonaSandbox_start_handle [of y py sdk] by blast
  from guards docker_cleared daytona_cleared docker_start daytona_start
    DockerSandbox_start_returned [of py engine d]
    DaytonaSandbox_start_returned [of py sdk y]
    DockerSandbox_run_command_started [of d py command working_dir timeout env]
    DaytonaSandbox_run_command_started [of y py command working_dir timeout env]
  show ?thesis by blast
qed

text \<open>
  The theorem on sandboxes without a handle (one just constructed of each backend, one
  of each backend after \<open>cleanup\<close>, and one of each backend whose \<open>start\<close> failed because the
  container or the workspace was not created) and on sandboxes with a handle (one of
  each backend after a \<open>start\<close> that returned, and one of each backend running a command).
\<close>

theorem not_started_error_witness:
  "DockerSandbox_run_command example_py example_docker ''echo hello'' ''/workspace''
     (NInt 120) None = (Inl (RuntimeError ''Sandbox not started''), []) \<and>
   DaytonaSandbox_run_command example_py example_daytona ''echo hello'' ''/workspace''
     (NInt 120) None = (Inl (RuntimeError ''Sandbox not started''), []) \<and>
   fst (DockerSandbox_cleanup (started_docker (example_container (Exec_returned 0 None None) None)))
     = None \<and>
   d_container (fst (snd (DockerSandbox_cleanup
     (started_docker (example_container (Exec_returned 0 None None) None))))) = None \<and>
   fst (DaytonaSandbox_cleanup (started_daytona (example_workspace (Process_returned 0 None) None)))
     = None \<and>
   y_sandbox (fst (snd (DaytonaSandbox_cleanup
     (started_daytona (example_workspace (Process_returned 0 None) None))))) = None \<and>
   fst (DockerSandbox_start example_py
     ((example_engine (example_container (Exec_returned 0 None None) None))
        \<lparr>containers_create := (\<lambda>config. Inl (OtherException ''no such image''))\<rparr>)
     example_docker) = Some (OtherException ''no such image'') \<and>
   d_container (fst (snd (DockerSandbox_start example_py
     ((example_engine (example_container (Exec_returned 0 None None) None))
        \<lparr>containers_create := (\<lambda>config. Inl (OtherException ''no such image''))\<rparr>)
     example_docker))) = None \<and>
   fst (DockerSandbox_start example_py
     (example_engine (example_container (Exec_returned 0 None None) None)) example_docker)
     = None \<and>
   d_container (fst (snd (DockerSandbox_start example_py
     (example_engine (example_container (Exec_returned 0 None None) None)) example_docker)))
     \<noteq> None \<and>
   fst (DaytonaSandbox_start example_py
     ((example_sdk (example_workspace (Process_returned 0 None) None))
        \<lparr>client_create := (\<lambda>params. Inl (OtherException ''quota exceeded''))\<rparr>)
     example_daytona) = Some (OtherException ''quota exceeded'') \<and>
   y_sandbox (fst (snd (DaytonaSandbox_start example_py
     ((example_sdk (example_workspace (Process_returned 0 None) None))
        \<lparr>client_create := (\<lambda>params. Inl (OtherException ''quota exceeded''))\<rparr>)
     example_daytona))) = None \<and>
   fst (DaytonaSandbox_start example_py
     (example_sdk (example_workspace (Process_returned 0 None) None)) example_daytona)
     = None \<and>
   y_sandbox (fst (snd (DaytonaSandbox_start example_py
     (example_sdk (example_workspace (Process_returned 0 None) None)) example_daytona)))
     \<noteq> None \<and>
   d_container (started_docker (example_container (Exec_returned 0 None None) None)) \<noteq> None \<and>
   fst (DockerSandbox_run_command example_py
     (started_docker (example_container (Exec_returned 0 None None) None))
     ''echo hello'' ''/workspace'' (NInt 120) None) \<noteq>
     Inl (RuntimeError ''Sandbox not started'') \<and>
   y_sandbox (started_daytona (example_workspace (Process_returned 0 None) None)) \<noteq> None \<and>
   fst (DaytonaSandbox_run_command example_py
     (started_daytona (example_workspace (Process_returned 0 None) None))
     ''echo hello'' ''/workspace'' (NInt 120) None) \<noteq>
     Inl (RuntimeError ''Sandbox not started'')"
proof -
  let ?c = "example_container (Exec_returned 0 None None) None"
  let ?refusing = "(example_engine ?c)
      \<lparr>containers_create := (\<lambda>config. Inl (OtherException ''no such image''))\<rparr>"
  note parts = not_started_error [THEN conjunct2, THEN conjunct2]
  note guards = parts [THEN conjunct2, THEN conjunct2]
  note starts = guards [THEN conjunct2, THEN conjunct2]
  have fresh: "d_container example_docker = None"
    by (simp add: example_docker_def DockerSandbox_init_def)
  from guards [THEN conjunct1, THEN mp, OF fresh]
  have docker: "DockerSandbox_run_command example_py example_docker ''echo hello''
      ''/workspace'' (NInt 120) None = (Inl (RuntimeError ''Sandbox not started''), [])"
    by (rule conjunct1)
  have "y_sandbox example_daytona = None"
    by (simp add: example_daytona_def DaytonaSandbox_init_def)
  from guards [THEN conjunct2, THEN conjunct1, THEN mp, OF this]
  have daytona: "DaytonaSandbox_run_command example_py example_daytona ''echo hello''
      ''/workspace'' (NInt 120) None = (Inl (RuntimeError ''Sandbox not started''), [])"
    by (rule conjunct1)
  have docker_ok: "fst (DockerSandbox_cleanup (started_docker ?c)) = None"
    by (simp add: DockerSandbox_cleanup_def started_docker_def example_container_def)
  from parts [THEN conjunct1, THEN mp, OF this]
  have docker_cleared: "d_container (fst (snd (DockerSandbox_cleanup (started_docker ?c)))) = None" .
  have daytona_ok: "fst (DaytonaSandbox_cleanup
      (started_daytona (example_workspace (Process_returned 0 None) None))) = None"
    by (simp add: DaytonaSandbox_cleanup_def started_daytona_def example_workspace_def)
  from parts [THEN conjunct2, THEN conjunct1, THEN mp, OF this]
  have daytona_cleared: "y_sandbox (fst (snd (DaytonaSandbox_cleanup
      (started_daytona (example_workspace (Process_returned 0 None) None))))) = None" .
  have nano: "int_of_float (float_mul example_py (d_cpu_limit example_docker)
      (Finite 1000000000)) = Inr 1000000000"
    by (simp add: example_py_def example_docker_def DockerSandbox_init_def)
  have refused: "DockerSandbox_start example_py ?refusing example_docker =
      (Some (OtherException ''no such image''), example_docker,
       [Call_from_env, Call_images_get (d_image example_docker),
        Call_containers_create (DockerSandbox_container_config example_docker 1000000000),
        Call_client_close])"
    unfolding DockerSandbox_start_def DockerSandbox_start_failed_def Let_def nano
    by (simp add: example_engine_def example_docker_def DockerSandbox_init_def)
  then have refused_raised: "fst (DockerSandbox_start example_py ?refusing example_docker) =
      Some (OtherException ''no such image'')"
    by simp
  have not_created: "\<not> (\<exists>config created.
      Call_containers_create config \<in>
        set (snd (snd (DockerSandbox_start example_py ?refusing example_docker))) \<and>
      containers_create ?refusing config = Inr created)"
    by simp
  from starts [THEN conjunct1, THEN mp, OF fresh] not_created
  have refused_handle: "d_container (fst (snd
      (DockerSandbox_start example_py ?refusing example_docker))) = None"
    by blast
  have returned: "fst (DockerSandbox_start example_py (example_engine ?c) example_docker) = None"
    unfolding DockerSandbox_start_def DockerSandbox_start_failed_def Let_def nano
    by (simp add: example_engine_def example_container_def DockerSandbox_run_command_def
          DockerSandbox_exec_result_def)
  from starts [THEN conjunct2, THEN conjunct2, THEN conjunct1, THEN mp, OF this]
  have returned_handle: "d_container (fst (snd
      (DockerSandbox_start example_py (example_engine ?c) example_docker))) \<noteq> None" .
  let ?w = "example_workspace (Process_returned 0 None) None"
  let ?full = "(example_sdk ?w)
      \<lparr>client_create := (\<lambda>params. Inl (OtherException ''quota exceeded''))\<rparr>"
  have fresh_daytona: "y_sandbox example_daytona = None"
    by (simp add: example_daytona_def DaytonaSandbox_init_def)
  have full: "DaytonaSandbox_start example_py ?full example_daytona =
      (Some (OtherException ''quota exceeded''),
       example_daytona\<lparr>y_client := Some DaytonaClient\<rparr>,
       [Call_new_client (y_api_key example_daytona),
        Call_client_create
          \<lparr>cp_image = y_image example_daytona, cp_cpu = y_cpu example_daytona,
           cp_memory = y_memory example_daytona, cp_disk = y_disk example_daytona,
           cp_auto_stop_interval = y_auto_stop_interval example_daytona\<rparr>])"
    by (simp add: DaytonaSandbox_start_def Let_def example_sdk_def example_daytona_def
          DaytonaSandbox_init_def)
  then have full_raised: "fst (DaytonaSandbox_start example_py ?full example_daytona) =
      Some (OtherException ''quota exceeded'')"
    by simp
  have no_workspace: "\<not> (\<exists>params created.
      Call_client_create params \<in>
        set (snd (snd (DaytonaSandbox_start example_py ?full example_daytona))) \<and>
      client_create ?full params = Inr created)"
    by simp
  from starts [THEN conjunct2, THEN conjunct1, THEN mp, OF fresh_daytona] no_workspace
  have full_handle: "y_sandbox (fst (snd
      (DaytonaSandbox_start example_py ?full example_daytona))) = None"
    by blast
  have created: "fst (DaytonaSandbox_start example_py (example_sdk ?w) example_daytona) = None"
    by (simp add: DaytonaSandbox_start_def Let_def example_sdk_def example_daytona_def
          DaytonaSandbox_init_def example_workspace_def DaytonaSandbox_run_command_def
          DaytonaSandbox_exec_result_def)
  from starts [THEN conjunct2, THEN conjunct2, THEN conjunct2, THEN conjunct1, THEN mp,
      OF this]
  have created_handle: "y_sandbox (fst (snd
      (DaytonaSandbox_start example_py (example_sdk ?w) example_daytona))) \<noteq> None" .
  have docker_set: "d_container (started_docker ?c) \<noteq> None"
    by (simp add: started_docker_def)
  from starts [THEN conjunct2, THEN conjunct2, THEN conjunct2, THEN conjunct2,
      THEN conjunct1, THEN mp, OF this]
  have docker_passes: "fst (DockerSandbox_run_command example_py (started_docker ?c)
      ''echo hello'' ''/workspace'' (NInt 120) None) \<noteq>
      Inl (RuntimeError ''Sandbox not started'')" .
  have daytona_set: "y_sandbox (started_daytona ?w) \<noteq> None"
    by (simp add: started_daytona_def)
  from starts [THEN conjunct2, THEN conjunct2, THEN conjunct2, THEN conjunct2,
      THEN conjunct2, THEN mp, OF this]
  have daytona_passes: "fst (DaytonaSandbox_run_command example_py (started_daytona ?w)
      ''echo hello'' ''/workspace'' (NInt 120) None) \<noteq>
      Inl (RuntimeError ''Sandbox not started'')" .
  show ?thesis
    by (rule conjI [OF docker conjI [OF daytona conjI [OF docker_ok conjI [OF docker_cleared
          conjI [OF daytona_ok conjI [OF daytona_cleared conjI [OF refused_raised
          conjI [OF refused_handle conjI [OF returned conjI [OF returned_handle
          conjI [OF full_raised conjI [OF full_handle conjI [OF created
          conjI [OF created_handle conjI [OF docker_set conjI [OF docker_passes
          conjI [OF daytona_set daytona_passes]]]]]]]]]]]]]]]]])
qed

text \<open>
  Claim C6 as stated fails after a \<open>start\<close> that did not complete. Here the engine creates
  the container and then fails to start it: \<open>start\<close> raises, the handle stays set, and
  \<open>run_command\<close> afterwards reaches the engine and returns a command result where the
  claim has it raise the not-started error.
\<close>

theorem start_failure_keeps_handle:
  "fst (DockerSandbox_start example_py
     (example_engine
        ((example_container (Exec_raised (OtherException ''container is not running'')) None)
           \<lparr>start := Some (OtherException ''cannot start container'')\<rparr>))
     example_docker) = Some (OtherException ''cannot start container'') \<and>
   fst (DockerSandbox_run_command example_py
     (fst (snd (DockerSandbox_start example_py
        (example_engine
           ((example_container (Exec_raised (OtherException ''container is not running'')) None)
              \<lparr>start := Some (OtherException ''cannot start container'')\<rparr>))
        example_docker)))
     ''echo hello'' ''/workspace'' (NInt 120) None) =
     Inr \<lparr>exit_code = - 1, stdout = [], stderr = ''container is not running''\<rparr>"
proof -
  let ?c = "(example_container (Exec_raised (OtherException ''container is not running'')) None)
      \<lparr>start := Some (OtherException ''cannot start container'')\<rparr>"
  have nano: "int_of_float (float_mul example_py (d_cpu_limit example_docker)
      (Finite 1000000000)) = Inr 1000000000"
    by (simp add: example_py_def example_docker_def DockerSandbox_init_def)
  have failed: "DockerSandbox_start example_py (example_engine ?c) example_docker =
      (Some (OtherException ''cannot start container''),
       example_docker\<lparr>d_client := None, d_container := Some ?c\<rparr>,
       [Call_from_env, Call_images_get (d_image example_docker),
        Call_containers_create (DockerSandbox_container_config example_docker 1000000000),
        Call_container_start, Call_client_close])"
    unfolding DockerSandbox_start_def DockerSandbox_start_failed_def Let_def nano
    by (simp add: example_engine_def example_container_def)
  have command: "fst (DockerSandbox_run_command example_py
      (example_docker\<lparr>d_client := None, d_container := Some ?c\<rparr>)
      ''echo hello'' ''/workspace'' (NInt 120) None) =
      Inr \<lparr>exit_code = - 1, stdout = [], stderr = ''container is not running''\<rparr>"
    by (simp add: DockerSandbox_run_command_def DockerSandbox_exec_result_def
          example_container_def)
  show ?thesis
    unfolding failed using command by simp
qed

text \<open>
  Claim C7. After a \<open>cleanup\<close> that returned normally, a second \<open>cleanup\<close> of either
  backend returns normally, leaves the object as it is and makes no call on the engine
  or the SDK.
\<close>

theorem cleanup_twice:
  "(fst (DockerSandbox_cleanup d) = None \<longrightarrow>
      DockerSandbox_cleanup (fst (snd (DockerSandbox_cleanup d))) =
        (None, fst (snd (DockerSandbox_cleanup d)), [])) \<and>
   (fst (DaytonaSandbox_cleanup y) = None \<longrightarrow>
      DaytonaSandbox_cleanup (fst (snd (DaytonaSandbox_cleanup y))) =
        (None, fst (snd (DaytonaSandbox_cleanup y)), []))"
proof
  show "fst (DockerSandbox_cleanup d) = None \<longrightarrow>
      DockerSandbox_cleanup (fst (snd (DockerSandbox_cleanup d))) =
        (None, fst (snd (DockerSandbox_cleanup d)), [])"
    by (auto simp: DockerSandbox_cleanup_def Let_def split: option.splits pyexn.splits)
  show "fst (DaytonaSandbox_cleanup y) = None \<longrightarrow>
      DaytonaSandbox_cleanup (fst (snd (DaytonaSandbox_cleanup y))) =
        (None, fst (snd (DaytonaSandbox_cleanup y)), [])"
    by (auto simp: DaytonaSandbox_cleanup_def split: option.splits)
qed

theorem cleanup_twice_witness:
  "fst (DockerSandbox_cleanup (started_docker (example_container (Exec_returned 0 None None) None)))
     = None \<and>
   snd (snd (DockerSandbox_cleanup
     (started_docker (example_container (Exec_returned 0 None None) None)))) =
     [Call_remove, Call_client_close] \<and>
   snd (snd (DockerSandbox_cleanup (fst (snd (DockerSandbox_cleanup
     (started_docker (example_container (Exec_returned 0 None None) None))))))) = [] \<and>
   fst (DaytonaSandbox_cleanup (started_daytona (example_workspace (Process_returned 0 None) None)))
     = None \<and>
   snd (snd (DaytonaSandbox_cleanup (fst (snd (DaytonaSandbox_cleanup
     (started_daytona (example_workspace (Process_returned 0 None) None))))))) = []"
proof -
  let ?d = "started_docker (example_container (Exec_returned 0 None None) None)"
  let ?y = "started_daytona (example_workspace (Process_returned 0 None) None)"
  have docker_ok: "fst (DockerSandbox_cleanup ?d) = None"
    by (simp add: DockerSandbox_cleanup_def started_docker_def example_container_def)
  have docker_calls: "snd (snd (DockerSandbox_cleanup ?d)) = [Call_remove, Call_client_close]"
    by (simp add: DockerSandbox_cleanup_def started_docker_def example_container_def)
  from cleanup_twice [THEN conjunct1, THEN mp, OF docker_ok]
  have docker_again: "snd (snd (DockerSandbox_cleanup (fst (snd (DockerSandbox_cleanup ?d))))) = []"
    by simp
  have daytona_ok: "fst (DaytonaSandbox_cleanup ?y) = None"
    by (simp add: DaytonaSandbox_cleanup_def started_daytona_def example_workspace_def)
  from cleanup_twice [THEN conjunct2, THEN mp, OF daytona_ok]
  have daytona_again:
    "snd (snd (DaytonaSandbox_cleanup (fst (snd (DaytonaSandbox_cleanup ?y))))) = []"
    by simp
  from docker_ok docker_calls docker_again daytona_ok daytona_again
  show ?thesis by (intro conjI)
qed

section \<open>Path validation\<close>

lemma split_on_nonempty: "split_on sep s \<noteq> []"
  by (induction s) (auto split: list.splits)

lemma split_on_no_sep: "w \<in> set (split_on sep s) \<Longrightarrow> sep \<notin> set w"
  by (induction s arbitrary: w) (auto split: list.splits if_splits)

lemma split_on_word: "sep \<notin> set w \<Longrightarrow> split_on sep w = [w]"
  by (induction w) auto

lemma split_on_append: "sep \<notin> set w \<Longrightarrow> split_on sep (w @ sep # rest) = w # split_on sep rest"
  by (induction w) auto

text \<open>Splitting what was joined gives the parts back, when no part holds the separator.\<close>

lemma split_on_join_with:
  "cs \<noteq> [] \<Longrightarrow> \<forall>c\<in>set cs. sep \<notin> set c \<Longrightarrow> split_on sep (join_with [sep] cs) = cs"
proof (induction "[sep]" cs rule: join_with.induct)
  case 1
  then show ?case by simp
next
  case (2 x)
  then show ?case by (simp add: split_on_word)
next
  case (3 x y ys)
  then show ?case by (simp add: split_on_append)
qed

lemma hd_join_with:
  "cs \<noteq> [] \<Longrightarrow> hd cs \<noteq> [] \<Longrightarrow> join_with sep cs \<noteq> [] \<and> hd (join_with sep cs) = hd (hd cs)"
  by (induction sep cs rule: join_with.induct) auto

lemma normpath_step_plain:
  assumes "list_all plain_component acc" and "CHR ''/'' \<notin> set c"
  shows "list_all plain_component (normpath_step k acc c)"
proof -
  have "list_all plain_component (butlast acc)"
    using assms(1) by (auto simp: list_all_iff dest: in_set_butlastD)
  with assms show ?thesis
    by (auto simp: normpath_step_def plain_component_def list_all_iff)
qed

lemma foldl_normpath_step_plain:
  "list_all plain_component acc \<Longrightarrow> \<forall>c\<in>set cs. CHR ''/'' \<notin> set c \<Longrightarrow>
   list_all plain_component (foldl (normpath_step k) acc cs)"
  by (induction cs arbitrary: acc) (simp_all add: normpath_step_plain)

lemma normpath_shape:
  "normpath p = ''.'' \<or>
   (\<exists>cs. list_all plain_component cs \<and>
      normpath p = replicate (initial_slashes p) CHR ''/'' @ join_with ''/'' cs)"
proof -
  let ?cs = "foldl (normpath_step (initial_slashes p)) [] (split_on CHR ''/'' p)"
  have "list_all plain_component ?cs"
    by (rule foldl_normpath_step_plain) (auto dest: split_on_no_sep)
  then show ?thesis
    by (auto simp: normpath_def Let_def)
qed

lemma initial_slashes_cases:
  "initial_slashes p = 0 \<or> initial_slashes p = 1 \<or> initial_slashes p = 2"
  by (simp add: initial_slashes_def)

text \<open>How \<open>PurePosixPath\<close> reads a text made of slashes and plain components.\<close>

lemma PurePosixPath_of_plain:
  assumes plain: "list_all plain_component cs"
  shows "PurePosixPath_of (replicate k CHR ''/'' @ join_with ''/'' cs) =
           \<lparr>root = (if k = 0 then [] else if k = 2 then ''//'' else ''/''), parts = cs\<rparr>"
proof -
  let ?j = "join_with ''/'' cs"
  have no_slash: "?j = [] \<or> hd ?j \<noteq> CHR ''/''"
  proof (cases cs)
    case Nil
    then show ?thesis by simp
  next
    case (Cons c cs')
    with plain have "c \<noteq> []" and "CHR ''/'' \<notin> set c"
      by (simp_all add: plain_component_def)
    then have "hd c \<noteq> CHR ''/''" by (cases c) auto
    with Cons \<open>c \<noteq> []\<close> show ?thesis
      using hd_join_with [of cs "''/''"] by simp
  qed
  then have "dropWhile (\<lambda>c. c = CHR ''/'') ?j = ?j"
    by (simp add: dropWhile_eq_self_iff)
  then have stripped: "dropWhile (\<lambda>c. c = CHR ''/'') (replicate k CHR ''/'' @ ?j) = ?j"
    by (simp add: dropWhile_append)
  have parts: "filter (\<lambda>x. x \<noteq> [] \<and> x \<noteq> ''.'') (split_on CHR ''/'' ?j) = cs"
  proof (cases "cs = []")
    case True
    then show ?thesis by simp
  next
    case False
    from plain have "\<forall>c\<in>set cs. CHR ''/'' \<notin> set c"
      by (simp add: list_all_iff plain_component_def)
    with False have "split_on CHR ''/'' ?j = cs"
      using split_on_join_with [of cs "CHR ''/''"] by simp
    moreover from plain have "filter (\<lambda>x. x \<noteq> [] \<and> x \<noteq> ''.'') cs = cs"
      by (simp add: list_all_iff plain_component_def)
    ultimately show ?thesis by simp
  qed
  show ?thesis
    unfolding PurePosixPath_of_def Let_def stripped parts by simp
qed

lemma ALLOWED_BASE_PATHS_eq:
  "ALLOWED_BASE_PATHS = [\<lparr>root = ''/'', parts = [''workspace'']\<rparr>]"
  by (simp add: ALLOWED_BASE_PATHS_def PurePosixPath_of_def)

text \<open>A path the component-aware check lets through is rooted at \<open>/workspace\<close>.\<close>

lemma allowed_shape:
  assumes "list_ex (\<lambda>base. n = base \<or> base \<in> set (parents n)) ALLOWED_BASE_PATHS"
  shows "root n = ''/'' \<and> (\<exists>rest. parts n = ''workspace'' # rest)"
proof -
  let ?base = "\<lparr>root = ''/'', parts = [''workspace'']\<rparr>"
  from assms have "n = ?base \<or> ?base \<in> set (parents n)"
    by (simp add: ALLOWED_BASE_PATHS_eq)
  then show ?thesis
  proof
    assume "n = ?base"
    then show ?thesis by simp
  next
    assume "?base \<in> set (parents n)"
    then obtain k where k: "k < length (parts n)"
      and eq: "?base = n\<lparr>parts := take k (parts n)\<rparr>"
      by (auto simp: parents_def)
    from eq have "root n = ''/''" and "take k (parts n) = [''workspace'']"
      by (cases n; simp)+
    moreover from this(2) have "parts n = ''workspace'' # drop k (parts n)"
      by (metis append_Cons append_Nil append_take_drop_id)
    ultimately show ?thesis by blast
  qed
qed

text \<open>
  A path \<open>_validate_path\<close> accepts normalises to \<open>/workspace\<close> or to a text that starts
  with \<open>/workspace/\<close>: no sibling such as \<open>/workspace2\<close>, and no relative path.
\<close>

lemma validate_path_accepts:
  assumes "validate_path p = Inr q"
  shows "normpath p = ''/workspace'' \<or> prefix ''/workspace/'' (normpath p)"
proof -
  let ?n = "PurePosixPath_of (normpath p)"
  from assms have absolute: "is_absolute ?n"
    and allowed: "list_ex (\<lambda>base. ?n = base \<or> base \<in> set (parents ?n)) ALLOWED_BASE_PATHS"
    by (auto simp: validate_path_def Let_def split: if_splits)
  from allowed_shape [OF allowed] obtain rest
    where root: "root ?n = ''/''" and parts: "parts ?n = ''workspace'' # rest"
    by blast
  from normpath_shape [of p] show ?thesis
  proof
    assume "normpath p = ''.''"
    then have "root ?n = []" by (simp add: PurePosixPath_of_def)
    with root show ?thesis by simp
  next
    assume "\<exists>cs. list_all plain_component cs \<and>
      normpath p = replicate (initial_slashes p) CHR ''/'' @ join_with ''/'' cs"
    then obtain cs where plain: "list_all plain_component cs"
      and shape: "normpath p = replicate (initial_slashes p) CHR ''/'' @ join_with ''/'' cs"
      by blast
    from PurePosixPath_of_plain [OF plain, of "initial_slashes p"]
    have read: "?n = \<lparr>root = (if initial_slashes p = 0 then []
                              else if initial_slashes p = 2 then ''//'' else ''/''),
                      parts = cs\<rparr>"
      by (simp add: shape)
    from read root have one: "initial_slashes p = 1"
      using initial_slashes_cases [of p] by (auto split: if_splits)
    from read parts have cs: "cs = ''workspace'' # rest" by simp
    show ?thesis
    proof (cases rest)
      case Nil
      with shape one cs show ?thesis by simp
    next
      case (Cons r rs)
      with shape one cs show ?thesis by simp
    qed
  qed
qed

lemma is_absolute_normpath:
  "is_absolute (PurePosixPath_of s) \<longleftrightarrow> take 1 s = ''/''"
proof (cases s)
  case Nil
  then show ?thesis by (simp add: is_absolute_def PurePosixPath_of_def)
next
  case (Cons c cs)
  have "length (dropWhile (\<lambda>c. c = CHR ''/'') cs) \<le> length cs"
    by (rule length_dropWhile_le)
  then have "Suc (length cs) - length (dropWhile (\<lambda>c. c = CHR ''/'') cs) \<noteq> 0"
    by linarith
  with Cons show ?thesis
    by (auto simp: is_absolute_def PurePosixPath_of_def Let_def)
qed

text \<open>
  Claim C1, as the code has it. Let the path \<open>p\<close> normalise (\<open>posixpath.normpath\<close>) to a
  text that is neither \<open>/workspace\<close> nor starts with \<open>/workspace/\<close>; this covers every
  relative path and siblings such as \<open>/workspace2/x\<close>. Then \<open>read_file\<close> and \<open>write_file\<close>
  return the dictionary with status \<open>error\<close> and make no call on the sandbox. When the
  normalised path is absolute the error message names \<open>p\<close> and lists the allowed roots;
  when it is relative the message is \<open>Path must be absolute, got: 'p'\<close>.
\<close>

theorem outside_workspace_rejected:
  assumes not_root: "normpath p \<noteq> ''/workspace''"
    and not_below: "\<not> prefix ''/workspace/'' (normpath p)"
  shows "\<exists>message.
           read_file executor p =
             (Inr [(''status'', VStr ''error''), (''error'', VStr message)], []) \<and>
           write_file executor p content =
             (Inr [(''status'', VStr ''error''), (''error'', VStr message)], []) \<and>
           message =
             (if take 1 (normpath p) = ''/''
              then ''Path '' @ [CHR 0x27] @ p @ [CHR 0x27] @
                   '' is outside allowed directories. Allowed: ['' @
                   [CHR 0x27] @ ''/workspace'' @ [CHR 0x27] @ '']''
              else ''Path must be absolute, got: '' @ [CHR 0x27] @ p @ [CHR 0x27])"
proof -
  let ?n = "PurePosixPath_of (normpath p)"
  have roots: "str_of_str_list (map as_posix ALLOWED_BASE_PATHS) =
      ''['' @ [CHR 0x27] @ ''/workspace'' @ [CHR 0x27] @ '']''"
    by (simp add: ALLOWED_BASE_PATHS_eq str_of_str_list_def as_posix_def)
  from not_root not_below have "\<not> (\<exists>q. validate_path p = Inr q)"
    using validate_path_accepts [of p] by blast
  then have refused: "is_absolute ?n \<longrightarrow>
      \<not> list_ex (\<lambda>base. ?n = base \<or> base \<in> set (parents ?n)) ALLOWED_BASE_PATHS"
    by (auto simp: validate_path_def Let_def)
  show ?thesis
  proof (cases "take 1 (normpath p) = ''/''")
    case True
    then have "is_absolute ?n" by (simp add: is_absolute_normpath)
    with refused have "validate_path p =
        Inl (ValueError (''Path '' @ [CHR 0x27] @ p @ [CHR 0x27] @
               '' is outside allowed directories. Allowed: ['' @
               [CHR 0x27] @ ''/workspace'' @ [CHR 0x27] @ '']''))"
      unfolding validate_path_def Let_def roots by simp
    with True show ?thesis
      by (simp add: read_file_def write_file_def error_result_def)
  next
    case False
    then have "\<not> is_absolute ?n" by (simp add: is_absolute_normpath)
    then have "validate_path p =
        Inl (ValueError (''Path must be absolute, got: '' @ [CHR 0x27] @ p @ [CHR 0x27]))"
      by (simp add: validate_path_def Let_def)
    with False show ?thesis
      by (simp add: read_file_def write_file_def error_result_def)
  qed
qed

lemma normpath_examples:
  "normpath ''/workspace2/x'' = ''/workspace2/x''"
  "normpath ''/workspace/../etc/passwd'' = ''/etc/passwd''"
  "normpath ''notes.txt'' = ''notes.txt''"
  "normpath ''/workspace/a/./../b'' = ''/workspace/b''"
  by (simp_all add: normpath_def initial_slashes_def normpath_step_def)

text \<open>Paths under the root are accepted, and returned normalised.\<close>

lemma validate_path_examples:
  "validate_path ''/workspace'' = Inr ''/workspace''"
  "validate_path ''/workspace/a/./../b'' = Inr ''/workspace/b''"
  by (simp_all add: validate_path_def normpath_def initial_slashes_def normpath_step_def
        PurePosixPath_of_def is_absolute_def parents_def ALLOWED_BASE_PATHS_def as_posix_def
        upt_rec)

text \<open>
  The theorem at the sibling \<open>/workspace2/x\<close> and at the traversal
  \<open>/workspace/../etc/passwd\<close>: both are refused with the list of allowed roots, and the
  sandbox is not called.
\<close>

theorem outside_workspace_rejected_witness:
  "normpath ''/workspace2/x'' \<noteq> ''/workspace'' \<and>
   \<not> prefix ''/workspace/'' (normpath ''/workspace2/x'') \<and>
   read_file example_executor ''/workspace2/x'' =
     (Inr [(''status'', VStr ''error''),
           (''error'', VStr (''Path '' @ [CHR 0x27] @ ''/workspace2/x'' @ [CHR 0x27] @
              '' is outside allowed directories. Allowed: ['' @
              [CHR 0x27] @ ''/workspace'' @ [CHR 0x27] @ '']''))], []) \<and>
   write_file example_executor ''/workspace/../etc/passwd'' ''root::0:0'' =
     (Inr [(''status'', VStr ''error''),
           (''error'', VStr (''Path '' @ [CHR 0x27] @ ''/workspace/../etc/passwd'' @
              [CHR 0x27] @ '' is outside allowed directories. Allowed: ['' @
              [CHR 0x27] @ ''/workspace'' @ [CHR 0x27] @ '']''))], [])"
proof -
  have sibling: "normpath ''/workspace2/x'' \<noteq> ''/workspace''"
      "\<not> prefix ''/workspace/'' (normpath ''/workspace2/x'')"
      "take 1 (normpath ''/workspace2/x'') = ''/''"
    by (simp_all add: normpath_examples)
  have traversal: "normpath ''/workspace/../etc/passwd'' \<noteq> ''/workspace''"
      "\<not> prefix ''/workspace/'' (normpath ''/workspace/../etc/passwd'')"
      "take 1 (normpath ''/workspace/../etc/passwd'') = ''/''"
    by (simp_all add: normpath_examples)
  from outside_workspace_rejected [OF sibling(1,2), of example_executor "[]"]
  have reading: "read_file example_executor ''/workspace2/x'' =
     (Inr [(''status'', VStr ''error''),
           (''error'', VStr (''Path '' @ [CHR 0x27] @ ''/workspace2/x'' @ [CHR 0x27] @
              '' is outside allowed directories. Allowed: ['' @
              [CHR 0x27] @ ''/workspace'' @ [CHR 0x27] @ '']''))], [])"
    unfolding sibling(3) by auto
  from outside_workspace_rejected [OF traversal(1,2), of example_executor "''root::0:0''"]
  have writing: "write_file example_executor ''/workspace/../etc/passwd'' ''root::0:0'' =
     (Inr [(''status'', VStr ''error''),
           (''error'', VStr (''Path '' @ [CHR 0x27] @ ''/workspace/../etc/passwd'' @
              [CHR 0x27] @ '' is outside allowed directories. Allowed: ['' @
              [CHR 0x27] @ ''/workspace'' @ [CHR 0x27] @ '']''))], [])"
    unfolding traversal(3) by auto
  from sibling(1,2) reading writing show ?thesis by (intro conjI)
qed

text \<open>
  Claim C1 as stated fails for relative paths: \<open>notes.txt\<close> is refused without a call on
  the sandbox, but the message says that the path must be absolute and does not report
  the allowed root.
\<close>

theorem relative_path_message:
  "normpath ''notes.txt'' \<noteq> ''/workspace'' \<and>
   \<not> prefix ''/workspace/'' (normpath ''notes.txt'') \<and>
   read_file example_executor ''notes.txt'' =
     (Inr [(''status'', VStr ''error''),
           (''error'', VStr (''Path must be absolute, got: '' @ [CHR 0x27] @ ''notes.txt'' @
              [CHR 0x27]))], []) \<and>
   \<not> str_contains ''/workspace''
        (''Path must be absolute, got: '' @ [CHR 0x27] @ ''notes.txt'' @ [CHR 0x27])"
proof -
  have normal: "normpath ''notes.txt'' = ''notes.txt''"
    by (simp add: normpath_def initial_slashes_def normpath_step_def)
  have refused: "validate_path ''notes.txt'' =
      Inl (ValueError (''Path must be absolute, got: '' @ [CHR 0x27] @ ''notes.txt'' @
             [CHR 0x27]))"
    unfolding validate_path_def normal
    by (simp add: PurePosixPath_of_def is_absolute_def)
  have result: "read_file example_executor ''notes.txt'' =
     (Inr [(''status'', VStr ''error''),
           (''error'', VStr (''Path must be absolute, got: '' @ [CHR 0x27] @ ''notes.txt'' @
              [CHR 0x27]))], [])"
    unfolding read_file_def refused by (simp add: error_result_def)
  have absent: "\<not> str_contains ''/workspace''
        (''Path must be absolute, got: '' @ [CHR 0x27] @ ''notes.txt'' @ [CHR 0x27])"
    by (simp add: str_contains_def sublist_code)
  from normal result absent show ?thesis by simp
qed

section \<open>Command execution\<close>






lemma dropWhile_append_keep:
  "ys \<noteq> [] \<Longrightarrow> \<not> P (hd ys) \<Longrightarrow> dropWhile P (xs @ ys) = dropWhile P xs @ ys"
  by (induction xs) (auto simp: neq_Nil_conv)

text \<open>Stripping a text that starts and ends with other than white space before a tail.\<close>

lemma py_strip_append:
  assumes "a \<noteq> []" and "\<not> py_isspace (hd a)" and "\<not> py_isspace (last a)"
  shows "py_strip (a @ b) = a @ rev (dropWhile py_isspace (rev b))"
proof -
  have "dropWhile py_isspace (rev b @ rev a) = dropWhile py_isspace (rev b) @ rev a"
    using assms by (intro dropWhile_append_keep) (simp_all add: hd_rev)
  then have "rev (dropWhile py_isspace (rev (a @ b))) = a @ rev (dropWhile py_isspace (rev b))"
    by simp
  moreover have "dropWhile py_isspace (a @ rev (dropWhile py_isspace (rev b))) =
      a @ rev (dropWhile py_isspace (rev b))"
    using assms by (cases a) simp_all
  ultimately show ?thesis by (simp add: py_strip_def)
qed

lemma timed_out_message_strip:
  "py_strip (''Command timed out after '' @ n @ '' seconds'' @ rest) =
     ''Command timed out after '' @ n @ '' seconds'' @ rev (dropWhile py_isspace (rev rest))"
  using py_strip_append [of "''Command timed out after '' @ n @ '' seconds''" rest]
  by (simp add: py_isspace_def)

text \<open>
  Claim C3, as the code has it. On a started sandbox, a command that runs into the
  timeout does not make \<open>run_command\<close> raise: the result has exit code \<open>-1\<close> and a
  standard error that starts with \<open>Command timed out after N seconds\<close>. When the
  caller-side bound elapses (either backend), \<open>N\<close> is the configured timeout as Python
  prints it, the standard output is empty and the standard error is that message alone.
  When the in-container utility exits with 124 (Docker), \<open>N\<close> is \<open>int(timeout)\<close>, the
  standard output is kept, and the command's own standard error follows the message
  (trailing white space removed). For an integer timeout the two numbers are the same.
  (A Docker exec is only made with a timeout that \<open>int\<close> accepts; \<open>timeout_int\<close> is its
  value.)
\<close>

theorem timeout_result:
  "(d_container d = Some c \<and> py_int timeout = Inr timeout_int \<and>
    exec_run c (DockerSandbox_exec_request py command working_dir timeout timeout_int env) =
      Exec_raised (TimeoutError m) \<longrightarrow>
      fst (DockerSandbox_run_command py d command working_dir timeout env) =
        Inr \<lparr>exit_code = - 1, stdout = [],
             stderr = ''Command timed out after '' @ str_num py timeout @ '' seconds''\<rparr>) \<and>
   (d_container d = Some c \<and> py_int timeout = Inr timeout_int \<and>
    exec_run c (DockerSandbox_exec_request py command working_dir timeout timeout_int env) =
      Exec_returned 124 out err \<longrightarrow>
      fst (DockerSandbox_run_command py d command working_dir timeout env) =
        Inr \<lparr>exit_code = - 1, stdout = decode_or_empty out,
             stderr = ''Command timed out after '' @ str_int timeout_int @ '' seconds'' @
                      rev (dropWhile py_isspace (rev (CHR 0x0A # decode_or_empty err)))\<rparr>) \<and>
   (y_sandbox y = Some w \<and>
    process_exec w (DaytonaSandbox_exec_request command working_dir timeout env) =
      Process_raised (TimeoutError m) \<longrightarrow>
      fst (DaytonaSandbox_run_command py y command working_dir timeout env) =
        Inr \<lparr>exit_code = - 1, stdout = [],
             stderr = ''Command timed out after '' @ str_num py timeout @ '' seconds''\<rparr>) \<and>
   py_int (NInt n) = Inr n \<and> str_num py (NInt n) = str_int n"
  by (simp add: DockerSandbox_run_command_def DockerSandbox_exec_result_def
        DaytonaSandbox_run_command_def DaytonaSandbox_exec_result_def Let_def
        timed_out_message_strip [simplified])

text \<open>
  The theorem on three started sandboxes, each running \<open>sleep 10\<close> with the timeout 2:
  a Docker sandbox whose await times out, a Docker sandbox whose exec exits with 124
  and the standard error \<open>Terminated\<close> and a line feed, and a Daytona sandbox whose await
  times out.
\<close>

theorem timeout_result_witness:
  "fst (DockerSandbox_run_command example_py
          (started_docker (example_container (Exec_raised (TimeoutError [])) None))
          ''sleep 10'' ''/workspace'' (NInt 2) None) =
     Inr \<lparr>exit_code = - 1, stdout = [], stderr = ''Command timed out after 2 seconds''\<rparr> \<and>
   fst (DockerSandbox_run_command example_py
          (started_docker (example_container
             (Exec_returned 124 None (Some (''Terminated'' @ [CHR 0x0A]))) None))
          ''sleep 10'' ''/workspace'' (NInt 2) None) =
     Inr \<lparr>exit_code = - 1, stdout = [],
          stderr = ''Command timed out after 2 seconds'' @ [CHR 0x0A] @ ''Terminated''\<rparr> \<and>
   fst (DaytonaSandbox_run_command example_py
          (started_daytona (example_workspace (Process_raised (TimeoutError [])) None))
          ''sleep 10'' ''/workspace'' (NInt 2) None) =
     Inr \<lparr>exit_code = - 1, stdout = [], stderr = ''Command timed out after 2 seconds''\<rparr>"
proof -
  let ?c1 = "example_container (Exec_raised (TimeoutError [])) None"
  let ?c2 = "example_container (Exec_returned 124 None (Some (''Terminated'' @ [CHR 0x0A]))) None"
  let ?w = "example_workspace (Process_raised (TimeoutError [])) None"
  have two: "str_int 2 = ''2''"
    by (simp add: str_int_def str_nat.simps digit_char_def)
  have tail: "rev (dropWhile py_isspace (rev (CHR 0x0A # ''Terminated'' @ [CHR 0x0A]))) =
      [CHR 0x0A] @ ''Terminated''"
    by (simp add: py_isspace_def)
  note th = timeout_result [where py = example_py and timeout = "NInt 2"
      and command = "''sleep 10''" and working_dir = "''/workspace''" and env = None]
  have h1: "d_container (started_docker ?c1) = Some ?c1 \<and> py_int (NInt 2) = Inr 2 \<and>
      exec_run ?c1 (DockerSandbox_exec_request example_py ''sleep 10'' ''/workspace''
        (NInt 2) 2 None) = Exec_raised (TimeoutError [])"
    by (simp add: started_docker_def example_container_def)
  from th [THEN conjunct1, THEN mp, OF h1]
  have r1: "fst (DockerSandbox_run_command example_py (started_docker ?c1)
          ''sleep 10'' ''/workspace'' (NInt 2) None) =
     Inr \<lparr>exit_code = - 1, stdout = [], stderr = ''Command timed out after 2 seconds''\<rparr>"
    by (simp add: two)
  have h2: "d_container (started_docker ?c2) = Some ?c2 \<and> py_int (NInt 2) = Inr 2 \<and>
      exec_run ?c2 (DockerSandbox_exec_request example_py ''sleep 10'' ''/workspace''
        (NInt 2) 2 None) = Exec_returned 124 None (Some (''Terminated'' @ [CHR 0x0A]))"
    by (simp add: started_docker_def example_container_def)
  from th [THEN conjunct2, THEN conjunct1, THEN mp, OF h2]
  have r2: "fst (DockerSandbox_run_command example_py (started_docker ?c2)
          ''sleep 10'' ''/workspace'' (NInt 2) None) =
     Inr \<lparr>exit_code = - 1, stdout = [],
          stderr = ''Command timed out after 2 seconds'' @ [CHR 0x0A] @ ''Terminated''\<rparr>"
    using tail by (simp add: two)
  have h3: "y_sandbox (started_daytona ?w) = Some ?w \<and>
      process_exec ?w (DaytonaSandbox_exec_request ''sleep 10'' ''/workspace'' (NInt 2) None) =
        Process_raised (TimeoutError [])"
    by (simp add: started_daytona_def example_workspace_def)
  from th [THEN conjunct2, THEN conjunct2, THEN conjunct1, THEN mp, OF h3]
  have r3: "fst (DaytonaSandbox_run_command example_py (started_daytona ?w)
          ''sleep 10'' ''/workspace'' (NInt 2) None) =
     Inr \<lparr>exit_code = - 1, stdout = [], stderr = ''Command timed out after 2 seconds''\<rparr>"
    by (simp add: two)
  show ?thesis by (rule conjI [OF r1 conjI [OF r2 r3]])
qed

text \<open>
  Claim C3 as stated fails for a fractional timeout in the 124 path: with the configured
  timeout 2.5, the standard error is \<open>Command timed out after 2 seconds\<close>, which does not
  contain the configured value.
\<close>

theorem timeout_message_truncates:
  "fst (DockerSandbox_run_command example_py
          (started_docker (example_container (Exec_returned 124 None None) None))
          ''sleep 10'' ''/workspace'' (NFloat (Finite (5 / 2))) None) =
     Inr \<lparr>exit_code = - 1, stdout = [], stderr = ''Command timed out after 2 seconds''\<rparr> \<and>
   str_num example_py (NFloat (Finite (5 / 2))) = ''2.5'' \<and>
   \<not> str_contains ''2.5'' ''Command timed out after 2 seconds''"
proof -
  have "\<lfloor>5 / 2 :: rat\<rfloor> = 2" by (simp add: floor_eq_iff)
  then have number: "py_int (NFloat (Finite (5 / 2))) = Inr 2"
    by simp
  have two: "str_int 2 = ''2''"
    by (simp add: str_int_def str_nat.simps digit_char_def)
  have "fst (DockerSandbox_run_command example_py
          (started_docker (example_container (Exec_returned 124 None None) None))
          ''sleep 10'' ''/workspace'' (NFloat (Finite (5 / 2))) None) =
     Inr \<lparr>exit_code = - 1, stdout = [],
          stderr = py_strip (''Command timed out after '' @ str_int 2 @
                             '' seconds'' @ [CHR 0x0A] @ [])\<rparr>"
    unfolding DockerSandbox_run_command_def number
    by (simp add: DockerSandbox_exec_result_def started_docker_def example_container_def)
  then have result: "fst (DockerSandbox_run_command example_py
          (started_docker (example_container (Exec_returned 124 None None) None))
          ''sleep 10'' ''/workspace'' (NFloat (Finite (5 / 2))) None) =
     Inr \<lparr>exit_code = - 1, stdout = [], stderr = ''Command timed out after 2 seconds''\<rparr>"
    unfolding two by (simp add: py_strip_def py_isspace_def)
  have shown: "str_num example_py (NFloat (Finite (5 / 2))) = ''2.5''"
    by (simp add: example_py_def)
  have absent: "\<not> str_contains ''2.5'' ''Command timed out after 2 seconds''"
    by (simp add: str_contains_def sublist_code)
  show ?thesis by (rule conjI [OF result conjI [OF shown absent]])
qed















end
